theory Spec2Isabelle
  imports Complex_Main
begin

section \<open>The semi-supervised DCGAN of model-MNIST-cv.py\<close>

text \<open>
  The training script is embedded function by function. Python integers are \<open>int\<close>,
  array sizes and indices \<open>nat\<close>. A Python float is the real number it holds. The true
  division of two integers is rounded to the nearest double, as Python does it; the
  numbers that come back from the tensor engine are taken as they are, and averaging
  them and scaling them by 100 is taken exactly. Every exception the script can raise
  by itself, or receive from matplotlib and scikit-learn, is a value of \<open>py_error\<close>,
  and a function that may raise returns \<open>py_error + 'a\<close>.
\<close>

datatype py_error =
  ZeroDivisionError | ValueError | IndexError | OverflowError | NameError | FileNotFoundError

subsection \<open>Constants of \<open>DCGAN.__init__\<close>\<close>

definition img_rows :: nat where "img_rows = 28"
definition img_cols :: nat where "img_cols = 28"
definition channels :: nat where "channels = 1"
definition num_classes :: nat where "num_classes = 10"

subsection \<open>Python floats: the double nearest a real number\<close>

text \<open>
  Rounding to the nearest integer, a tie going to the even one; the binary exponent of a
  double, which does not go below that of the subnormal numbers; and the double nearest
  a real number, with 53 significant bits, the exponent not bounded above (a result of
  magnitude \<open>2 ^ 1024\<close> or more is an overflow, which the caller checks).
\<close>

definition round_half_even :: "real \<Rightarrow> int" where
  "round_half_even x =
     (let f = \<lfloor>x\<rfloor>
      in if x - of_int f < 1 / 2 then f
         else if 1 / 2 < x - of_int f then f + 1
         else if even f then f else f + 1)"

definition double_exponent :: "real \<Rightarrow> int" where
  "double_exponent x = max \<lfloor>log 2 \<bar>x\<bar>\<rfloor> (- 1022)"

definition round_double :: "real \<Rightarrow> real" where
  "round_double x =
     (if x = 0 then 0
      else of_int (round_half_even (x / 2 powi (double_exponent x - 52)))
             * 2 powi (double_exponent x - 52))"

text \<open>
  \<^verbatim>\<open>a / b\<close> on two integers (true division): the double nearest the exact quotient,
  ZeroDivisionError for a zero divisor, OverflowError when the result is too large for a
  double.
\<close>

definition py_truediv :: "int \<Rightarrow> int \<Rightarrow> py_error + real" where
  "py_truediv a b =
     (if b = 0 then Inl ZeroDivisionError
      else if 2 ^ 1024 \<le> \<bar>round_double (of_int a / of_int b)\<bar> then Inl OverflowError
      else Inr (round_double (of_int a / of_int b)))"

text \<open>\<^verbatim>\<open>int(x)\<close> on a float: truncation towards zero.\<close>

definition py_int :: "real \<Rightarrow> int" where
  "py_int x = (if 0 \<le> x then \<lfloor>x\<rfloor> else \<lceil>x\<rceil>)"

text \<open>
  The product of two floats and the quotient of two numbers as Python computes them in
  doubles, for values in range.
\<close>

definition float_mul :: "real \<Rightarrow> real \<Rightarrow> real" where
  "float_mul a b = round_double (a * b)"

definition float_div :: "real \<Rightarrow> real \<Rightarrow> real" where
  "float_div a b = round_double (a / b)"

subsection \<open>\<open>DCGAN.train\<close>: half batch and class weights\<close>

text \<open>
  \<^verbatim>\<open>half_batch = int(batch_size / 2)\<close>: true division, which goes through a double,
  followed by truncation towards zero. This is the value when the division does not
  overflow.
\<close>

definition half_batch_of :: "int \<Rightarrow> int" where
  "half_batch_of batch_size = py_int (round_double (of_int batch_size / 2))"

type_synonym class_weight = "nat \<rightharpoonup> real"

text \<open>\<^verbatim>\<open>cw1 = {0: 1, 1: 1}\<close>\<close>

definition cw1 :: class_weight where
  "cw1 = [0 \<mapsto> 1, 1 \<mapsto> 1]"

text \<open>
  \<^verbatim>\<open>cw2 = {i: self.num_classes / half_batch for i in range(self.num_classes)}\<close>
  \<^verbatim>\<open>cw2[self.num_classes] = 1 / half_batch\<close>
  for a half batch that is not zero: each weight is the double nearest the quotient
  (neither quotient can be too large for a double).
\<close>

definition cw2 :: "int \<Rightarrow> class_weight" where
  "cw2 half_batch =
     (\<lambda>i. if i < num_classes
          then Some (round_double (real num_classes / real_of_int half_batch)) else None)
       (num_classes \<mapsto> round_double (1 / real_of_int half_batch))"

text \<open>
  Lines 164 to 172 of \<open>train\<close>: the half batch and the two maps. The first division
  raises OverflowError for a batch size too large for a double, the divisions by the
  half batch raise when it is zero.
\<close>

definition class_weights :: "int \<Rightarrow> py_error + (class_weight \<times> class_weight)" where
  "class_weights batch_size =
     (case py_truediv batch_size 2 of
        Inl e \<Rightarrow> Inl e
      | Inr q \<Rightarrow>
          let half_batch = py_int q
          in if half_batch = 0 then Inl ZeroDivisionError
             else Inr (cw1, cw2 half_batch))"

subsection \<open>Array helpers of numpy and Keras used by the script\<close>

type_synonym tensor = "real list"
type_synonym image = tensor

text \<open>\<^verbatim>\<open>np.ones((n, 1))\<close>, \<^verbatim>\<open>np.zeros((n, 1))\<close>, \<^verbatim>\<open>np.full((n, 1), v)\<close>: \<open>n\<close> rows of one column.\<close>

definition np_ones :: "nat \<Rightarrow> real list list" where
  "np_ones n = replicate n [1]"

definition np_zeros :: "nat \<Rightarrow> real list list" where
  "np_zeros n = replicate n [0]"

definition np_full :: "nat \<Rightarrow> nat \<Rightarrow> nat list" where
  "np_full n v = replicate n v"

text \<open>\<^verbatim>\<open>X[idx]\<close> with an index array: one row per index, IndexError on an index out of range.\<close>

definition take_rows :: "'a list \<Rightarrow> nat list \<Rightarrow> py_error + 'a list" where
  "take_rows xs idx =
     (if list_all (\<lambda>i. i < length xs) idx then Inr (map (\<lambda>i. xs ! i) idx)
      else Inl IndexError)"

text \<open>
  Modelled from the spec: Keras' \<^verbatim>\<open>to_categorical(y, num_classes)\<close>, which is not part of
  the script: each label becomes a one-hot row of length \<open>num_classes\<close>
  (\<^verbatim>\<open>categorical[np.arange(n), y] = 1\<close> on a matrix of zeros), and a label that is not
  below \<open>num_classes\<close> is an index out of range.
\<close>

definition one_hot :: "nat \<Rightarrow> nat \<Rightarrow> real list" where
  "one_hot n y = map (\<lambda>j. if j = y then 1 else 0) [0..<n]"

definition to_categorical :: "nat list \<Rightarrow> nat \<Rightarrow> py_error + real list list" where
  "to_categorical y n =
     (if list_all (\<lambda>l. l < n) y then Inr (map (one_hot n) y) else Inl IndexError)"

text \<open>
  \<^verbatim>\<open>np.argmax\<close> of one row: the index of the first greatest entry; an empty row raises
  ValueError.
\<close>

fun argmax_from :: "nat \<Rightarrow> real \<Rightarrow> nat \<Rightarrow> real list \<Rightarrow> nat" where
  "argmax_from best bv i [] = best"
| "argmax_from best bv i (x # xs) =
     (if bv < x then argmax_from i x (Suc i) xs else argmax_from best bv (Suc i) xs)"

definition np_argmax :: "real list \<Rightarrow> py_error + nat" where
  "np_argmax xs = (case xs of [] \<Rightarrow> Inl ValueError | x # ys \<Rightarrow> Inr (argmax_from 0 x 1 ys))"

fun map_err :: "('a \<Rightarrow> py_error + 'b) \<Rightarrow> 'a list \<Rightarrow> py_error + 'b list" where
  "map_err f [] = Inr []"
| "map_err f (x # xs) =
     (case f x of
        Inl e \<Rightarrow> Inl e
      | Inr y \<Rightarrow> (case map_err f xs of Inl e \<Rightarrow> Inl e | Inr ys \<Rightarrow> Inr (y # ys)))"

text \<open>\<^verbatim>\<open>0.5 * np.add(a, b)\<close> on two metric vectors of the same length.\<close>

definition half_add :: "real list \<Rightarrow> real list \<Rightarrow> real list" where
  "half_add a b = map (\<lambda>(x, y). 0.5 * (x + y)) (zip a b)"

subsection \<open>Layers and \<open>build_generator\<close>\<close>

datatype activation = Relu | Tanh | Sigmoid | Softmax

datatype layer =
    Dense nat "activation option"
  | Reshape "nat list"
  | BatchNormalization real
  | UpSampling2D
  | Conv2D nat nat nat
  | Activation activation
  | LeakyReLU real
  | Dropout real
  | ZeroPadding2D nat nat nat nat
  | Flatten

text \<open>The stack of \<open>build_generator\<close>; \<open>Conv2D filters kernel_size strides\<close>.\<close>

definition build_generator :: "layer list" where
  "build_generator =
     [Dense (128 * 7 * 7) (Some Relu),
      Reshape [7, 7, 128],
      BatchNormalization 0.8,
      UpSampling2D,
      Conv2D 128 3 1,
      Activation Relu,
      BatchNormalization 0.8,
      UpSampling2D,
      Conv2D 64 3 1,
      Activation Relu,
      BatchNormalization 0.8,
      Conv2D channels 3 1,
      Activation Tanh]"

text \<open>The element-wise activations; softmax normalises over the whole row.\<close>

fun activate :: "activation \<Rightarrow> tensor \<Rightarrow> tensor" where
  "activate Relu xs = map (\<lambda>x. max 0 x) xs"
| "activate Tanh xs = map tanh xs"
| "activate Sigmoid xs = map (\<lambda>x. 1 / (1 + exp (- x))) xs"
| "activate Softmax xs = map (\<lambda>x. exp x / sum_list (map exp xs)) xs"

text \<open>
  The forward pass of a stack on one sample. What a layer computes from its weights
  (dense product, convolution, normalisation, reshaping) is the tensor engine's, given
  as \<open>op\<close>, which receives the layer's position in the stack and the layer; an
  activation is applied to the result.
\<close>

fun apply_layer :: "(nat \<Rightarrow> layer \<Rightarrow> tensor \<Rightarrow> tensor) \<Rightarrow> nat \<Rightarrow> layer \<Rightarrow> tensor \<Rightarrow> tensor" where
  "apply_layer op i (Activation a) x = activate a x"
| "apply_layer op i (Dense n (Some a)) x = activate a (op i (Dense n (Some a)) x)"
| "apply_layer op i l x = op i l x"

fun run_layers :: "(nat \<Rightarrow> layer \<Rightarrow> tensor \<Rightarrow> tensor) \<Rightarrow> nat \<Rightarrow> layer list \<Rightarrow> tensor \<Rightarrow> tensor" where
  "run_layers op i [] x = x"
| "run_layers op i (l # ls) x = run_layers op (Suc i) ls (apply_layer op i l x)"

text \<open>\<^verbatim>\<open>self.generator.predict(noise)\<close>: the stack applied to every latent vector.\<close>

definition generator_predict :: "(nat \<Rightarrow> layer \<Rightarrow> tensor \<Rightarrow> tensor) \<Rightarrow> tensor list \<Rightarrow> image list" where
  "generator_predict op noise = map (run_layers op 0 build_generator) noise"

subsection \<open>The tensor engine and the random number generator\<close>

text \<open>
  The five scalars Keras returns from \<open>train_on_batch\<close> and \<open>evaluate\<close> for the
  discriminator, a model with the two outputs (validity, class) compiled with
  \<^verbatim>\<open>metrics=['accuracy']\<close>, in Keras' order: total loss, loss of each output,
  accuracy of each output. The script reads them by position.
\<close>

record metrics =
  total_loss :: real
  validity_loss :: real
  class_loss :: real
  validity_acc :: real
  class_acc :: real

definition metrics_list :: "metrics \<Rightarrow> real list" where
  "metrics_list m = [total_loss m, validity_loss m, class_loss m, validity_acc m, class_acc m]"

datatype loss_fn = binary_crossentropy | categorical_crossentropy

record compile_config =
  cfg_loss :: "loss_fn list"
  cfg_loss_weights :: "real list"
  cfg_metrics :: "string list"

text \<open>The three \<open>compile\<close> calls of \<open>__init__\<close>.\<close>

definition discriminator_compile :: compile_config where
  "discriminator_compile =
     \<lparr>cfg_loss = [binary_crossentropy, categorical_crossentropy],
      cfg_loss_weights = [0.5, 0.5],
      cfg_metrics = [''accuracy'']\<rparr>"

definition generator_compile :: compile_config where
  "generator_compile = \<lparr>cfg_loss = [binary_crossentropy], cfg_loss_weights = [], cfg_metrics = []\<rparr>"

definition combined_compile :: compile_config where
  "combined_compile = \<lparr>cfg_loss = [binary_crossentropy], cfg_loss_weights = [], cfg_metrics = []\<rparr>"

text \<open>
  What the script calls and does not define: numpy's global random generator (state
  \<open>'r\<close>) and the Keras networks (all parameters and the optimizer state, \<open>'w\<close>).
  \<^item> \<open>np_random_randint high size\<close>: \<^verbatim>\<open>np.random.randint(0, high, size)\<close>;
  \<^item> \<open>np_random_normal rows cols\<close>: \<^verbatim>\<open>np.random.normal(0, 1, (rows, cols))\<close>;
  \<^item> \<open>keras_init\<close>: the initial parameters drawn when the three networks are built;
  \<^item> \<open>layer_op\<close>: what a generator layer computes at prediction time;
  \<^item> \<open>discriminator_train_on_batch cfg x validity classes class_weight\<close>,
    \<open>combined_train_on_batch cfg noise validity class_weight\<close>: one gradient step,
    returning the scalars and the new parameters;
  \<^item> \<open>discriminator_evaluate\<close>, \<open>discriminator_predict\<close>: no update;
  \<^item> \<open>fig_savefig epoch imgs\<close>: matplotlib drawing the grid of images and writing it
    to \<^verbatim>\<open>./generators_output/mnist_<epoch>.png\<close>; the exception it raises, if any
    (FileNotFoundError when the directory is missing);
  \<^item> \<open>prediction_report y_test y_pred\<close>: scikit-learn's accuracy score,
    classification report and confusion matrix and matplotlib's plot of the matrix,
    printed and shown; the exception they raise, if any.
\<close>

record ('w, 'r) engine =
  np_random_randint :: "nat \<Rightarrow> nat \<Rightarrow> 'r \<Rightarrow> nat list \<times> 'r"
  np_random_normal :: "nat \<Rightarrow> nat \<Rightarrow> 'r \<Rightarrow> tensor list \<times> 'r"
  keras_init :: "'r \<Rightarrow> 'w \<times> 'r"
  layer_op :: "'w \<Rightarrow> nat \<Rightarrow> layer \<Rightarrow> tensor \<Rightarrow> tensor"
  discriminator_train_on_batch ::
    "compile_config \<Rightarrow> image list \<Rightarrow> real list list \<Rightarrow> real list list \<Rightarrow> class_weight list
       \<Rightarrow> 'w \<Rightarrow> 'r \<Rightarrow> metrics \<times> 'w \<times> 'r"
  combined_train_on_batch ::
    "compile_config \<Rightarrow> tensor list \<Rightarrow> real list list \<Rightarrow> class_weight list
       \<Rightarrow> 'w \<Rightarrow> 'r \<Rightarrow> real \<times> 'w \<times> 'r"
  discriminator_evaluate ::
    "compile_config \<Rightarrow> image list \<Rightarrow> real list list \<Rightarrow> real list list \<Rightarrow> 'w \<Rightarrow> metrics"
  discriminator_predict :: "'w \<Rightarrow> image list \<Rightarrow> real list list \<times> real list list"
  fig_savefig :: "int \<Rightarrow> image list \<Rightarrow> py_error option"
  prediction_report :: "nat list \<Rightarrow> nat list \<Rightarrow> py_error option"

subsection \<open>The \<open>DCGAN\<close> object\<close>

record history =
  D_loss :: "real list"
  D_acc :: "real list"
  G_loss :: "real list"
  G_acc :: "real list"

record 'w dcgan =
  weights :: 'w
  training_history :: history

definition DCGAN_init :: "('w, 'r) engine \<Rightarrow> 'r \<Rightarrow> 'w dcgan \<times> 'r" where
  "DCGAN_init eng r =
     (let (w, r') = keras_init eng r
      in (\<lparr>weights = w,
           training_history = \<lparr>D_loss = [], D_acc = [], G_loss = [], G_acc = []\<rparr>\<rparr>, r'))"

text \<open>
  \<open>save_imgs\<close>: 25 latent vectors are drawn and turned into images, rescaled by
  \<^verbatim>\<open>0.5 * gen_imgs + 1\<close>, drawn and written to the file of the epoch; the random
  generator moves on, and writing the file may raise.
\<close>

definition save_imgs :: "('w, 'r) engine \<Rightarrow> 'w \<Rightarrow> int \<Rightarrow> 'r \<Rightarrow> py_error + 'r" where
  "save_imgs eng w epoch r =
     (let (noise, r') = np_random_normal eng (5 * 5) 100 r;
          gen_imgs = generator_predict (layer_op eng w) noise;
          gen_imgs' = map (map (\<lambda>v. 0.5 * v + 1)) gen_imgs
      in case fig_savefig eng epoch gen_imgs' of
           Some e \<Rightarrow> Inl e
         | None \<Rightarrow> Inr r')"

text \<open>The record of one epoch in the history: entry \<open>e\<close> of each of the four lists.\<close>

definition history_records :: "history \<Rightarrow> (real \<times> real \<times> real \<times> real) list" where
  "history_records h = zip (D_loss h) (zip (D_acc h) (zip (G_loss h) (G_acc h)))"

subsection \<open>\<open>DCGAN.train\<close>: the loop\<close>

text \<open>
  What one epoch hands to the engine, in the order of the calls, and the loss vectors it
  gets back. \<open>DiscriminatorTrain cfg x validity classes class_weight\<close> is
  \<^verbatim>\<open>self.discriminator.train_on_batch(x, [validity, classes], class_weight=...)\<close> on
  the discriminator as compiled with \<open>cfg\<close>; \<open>CombinedTrain\<close> likewise for
  \<^verbatim>\<open>self.combined.train_on_batch\<close>.
\<close>

datatype call =
    DiscriminatorTrain compile_config "image list" "real list list" "real list list" "class_weight list"
  | CombinedTrain compile_config "tensor list" "real list list" "class_weight list"

record epoch_log =
  calls :: "call list"
  d_loss_real :: "real list"
  d_loss_fake :: "real list"
  d_loss :: "real list"
  g_loss :: real

definition train_epoch ::
  "('w, 'r) engine \<Rightarrow> image list \<Rightarrow> nat list \<Rightarrow> int \<Rightarrow> int \<Rightarrow> class_weight list \<Rightarrow> int \<Rightarrow> int
     \<Rightarrow> 'w dcgan \<times> 'r \<Rightarrow> py_error + (('w dcgan \<times> 'r) \<times> epoch_log)" where
  "train_epoch eng X_train y_train batch_size half_batch cw save_interval epoch st =
     (let (self, r) = st in
      if half_batch < 0 \<or> length X_train = 0 then Inl ValueError
      else
        let (idx, r1) = np_random_randint eng (length X_train) (nat half_batch) r in
        case take_rows X_train idx of Inl e \<Rightarrow> Inl e | Inr imgs \<Rightarrow>
        let (noise, r2) = np_random_normal eng (nat half_batch) 100 r1;
            gen_imgs = generator_predict (layer_op eng (weights self)) noise;
            valid = np_ones (nat half_batch);
            fake = np_zeros (nat half_batch) in
        case take_rows y_train idx of Inl e \<Rightarrow> Inl e | Inr ys \<Rightarrow>
        case to_categorical ys (num_classes + 1) of Inl e \<Rightarrow> Inl e | Inr labels \<Rightarrow>
        case to_categorical (np_full (nat half_batch) num_classes) (num_classes + 1) of
          Inl e \<Rightarrow> Inl e | Inr fake_labels \<Rightarrow>
        let (m_real, w1, r3) =
              discriminator_train_on_batch eng discriminator_compile imgs valid labels cw
                (weights self) r2;
            (m_fake, w2, r4) =
              discriminator_train_on_batch eng discriminator_compile gen_imgs fake fake_labels cw
                w1 r3;
            dlr = metrics_list m_real;
            dlf = metrics_list m_fake;
            dl = half_add dlr dlf;
            (noise', r5) = np_random_normal eng (nat batch_size) 100 r4;
            validity = np_ones (nat batch_size);
            (gl, w3, r6) = combined_train_on_batch eng combined_compile noise' validity cw w2 r5;
            h = training_history self;
            h' = \<lparr>D_loss = D_loss h @ [dl ! 0],
                  D_acc = D_acc h @ [100 * dl ! 3],
                  G_loss = G_loss h @ [gl],
                  G_acc = G_acc h @ [100 * dl ! 4]\<rparr>;
            lg = \<lparr>calls = [DiscriminatorTrain discriminator_compile imgs valid labels cw,
                             DiscriminatorTrain discriminator_compile gen_imgs fake fake_labels cw,
                             CombinedTrain combined_compile noise' validity cw],
                  d_loss_real = dlr, d_loss_fake = dlf, d_loss = dl, g_loss = gl\<rparr>
        in if save_interval = 0 then Inl ZeroDivisionError
           else if epoch mod save_interval = 0
           then (case save_imgs eng w3 epoch r6 of
                   Inl e \<Rightarrow> Inl e
                 | Inr r7 \<Rightarrow> Inr ((\<lparr>weights = w3, training_history = h'\<rparr>, r7), lg))
           else Inr ((\<lparr>weights = w3, training_history = h'\<rparr>, r6), lg))"

fun train_loop ::
  "('w, 'r) engine \<Rightarrow> image list \<Rightarrow> nat list \<Rightarrow> int \<Rightarrow> int \<Rightarrow> class_weight list \<Rightarrow> int \<Rightarrow> nat list
     \<Rightarrow> 'w dcgan \<times> 'r \<Rightarrow> py_error + (('w dcgan \<times> 'r) \<times> epoch_log list)" where
  "train_loop eng X_train y_train batch_size half_batch cw save_interval [] st = Inr (st, [])"
| "train_loop eng X_train y_train batch_size half_batch cw save_interval (epoch # es) st =
     (case train_epoch eng X_train y_train batch_size half_batch cw save_interval (int epoch) st of
        Inl e \<Rightarrow> Inl e
      | Inr (st', lg) \<Rightarrow>
          (case train_loop eng X_train y_train batch_size half_batch cw save_interval es st' of
             Inl e \<Rightarrow> Inl e
           | Inr (st'', lgs) \<Rightarrow> Inr (st'', lg # lgs)))"

definition train ::
  "('w, 'r) engine \<Rightarrow> image list \<Rightarrow> nat list \<Rightarrow> int \<Rightarrow> int \<Rightarrow> int
     \<Rightarrow> 'w dcgan \<times> 'r \<Rightarrow> py_error + (('w dcgan \<times> 'r) \<times> epoch_log list)" where
  "train eng X_train y_train epochs batch_size save_interval st =
     (case class_weights batch_size of
        Inl e \<Rightarrow> Inl e
      | Inr (c1, c2) \<Rightarrow>
          train_loop eng X_train y_train batch_size (half_batch_of batch_size) [c1, c2]
            save_interval [0..<nat epochs] st)"

subsection \<open>\<open>DCGAN.evaluate_discriminator\<close> and \<open>DCGAN.predict\<close>\<close>

definition evaluate_discriminator ::
  "('w, 'r) engine \<Rightarrow> 'w dcgan \<Rightarrow> image list \<Rightarrow> nat list \<Rightarrow> py_error + (real \<times> real)" where
  "evaluate_discriminator eng self X_test y_test =
     (let valid = np_ones (length y_test) in
      case to_categorical y_test (num_classes + 1) of
        Inl e \<Rightarrow> Inl e
      | Inr labels \<Rightarrow>
          let scores = metrics_list
                (discriminator_evaluate eng discriminator_compile X_test valid labels (weights self))
          in Inr (scores ! 0, scores ! 3 * 100))"

text \<open>
  \<^verbatim>\<open>y_pred = np.argmax(y_pred[1][:,:-1], axis=1)\<close> on the discriminator's class output,
  one row per sample: the last column is dropped and the first greatest of the rest
  is taken.
\<close>

definition format_predictions :: "real list list \<Rightarrow> py_error + nat list" where
  "format_predictions class_out = map_err (\<lambda>row. np_argmax (butlast row)) class_out"

text \<open>
  \<open>predict\<close> does not read \<open>self\<close>: line 293 takes the discriminator of the module's
  global variable \<open>dcgan\<close>, here the second argument, which \<open>__main__\<close> binds in its loop
  over the folds; with the name unbound the line raises NameError. The predictions are
  then handed, with \<open>y_test\<close>, to the reports, which may raise. The Python method
  returns nothing; the model returns the predictions it has reported on.
\<close>

definition predict ::
  "('w, 'r) engine \<Rightarrow> 'w dcgan option \<Rightarrow> 'w dcgan \<Rightarrow> image list \<Rightarrow> nat list
     \<Rightarrow> py_error + nat list" where
  "predict eng dcgan self X_test y_test =
     (case dcgan of
        None \<Rightarrow> Inl NameError
      | Some d \<Rightarrow>
          let y_pred = discriminator_predict eng (weights d) X_test
          in case format_predictions (snd y_pred) of
               Inl e \<Rightarrow> Inl e
             | Inr y_pred' \<Rightarrow>
                 (case prediction_report eng y_test y_pred' of
                    Some e \<Rightarrow> Inl e
                  | None \<Rightarrow> Inr y_pred'))"

subsection \<open>The cross-validation driver\<close>

text \<open>
  The body of the loop over the folds of \<open>__main__\<close>, for one fold
  \<open>(train_idx, val_idx)\<close>, and the loop, which collects \<open>kfold_scores\<close> and keeps the
  last \<open>dcgan\<close>. The folds are scikit-learn's.
\<close>

definition run_fold ::
  "('w, 'r) engine \<Rightarrow> image list \<Rightarrow> nat list \<Rightarrow> nat list \<times> nat list \<Rightarrow> 'r
     \<Rightarrow> py_error + ('w dcgan \<times> real \<times> 'r)" where
  "run_fold eng X_train y_train fd r =
     (let (train_idx, val_idx) = fd in
      case take_rows X_train train_idx of Inl e \<Rightarrow> Inl e | Inr X_train_cv \<Rightarrow>
      case take_rows y_train train_idx of Inl e \<Rightarrow> Inl e | Inr y_train_cv \<Rightarrow>
      case take_rows X_train val_idx of Inl e \<Rightarrow> Inl e | Inr X_valid_cv \<Rightarrow>
      case take_rows y_train val_idx of Inl e \<Rightarrow> Inl e | Inr y_valid_cv \<Rightarrow>
      case train eng X_train_cv y_train_cv 100 32 10 (DCGAN_init eng r) of
        Inl e \<Rightarrow> Inl e
      | Inr ((dcgan, r'), lgs) \<Rightarrow>
          (case evaluate_discriminator eng dcgan X_valid_cv y_valid_cv of
             Inl e \<Rightarrow> Inl e
           | Inr (l, acc) \<Rightarrow> Inr (dcgan, acc, r')))"

fun run_folds ::
  "('w, 'r) engine \<Rightarrow> image list \<Rightarrow> nat list \<Rightarrow> (nat list \<times> nat list) list
     \<Rightarrow> real list \<times> 'w dcgan option \<times> 'r \<Rightarrow> py_error + (real list \<times> 'w dcgan option \<times> 'r)" where
  "run_folds eng X_train y_train [] acc = Inr acc"
| "run_folds eng X_train y_train (fd # folds) (kfold_scores, lst, r) =
     (case run_fold eng X_train y_train fd r of
        Inl e \<Rightarrow> Inl e
      | Inr (dcgan, acc, r') \<Rightarrow>
          run_folds eng X_train y_train folds (kfold_scores @ [acc], Some dcgan, r'))"

subsection \<open>What the script relies on from numpy's samplers\<close>

text \<open>
  The documented shape of the two samplers' results: \<^verbatim>\<open>randint(0, high, n)\<close> gives
  \<open>n\<close> integers below \<open>high\<close>, \<^verbatim>\<open>normal(0, 1, (rows, cols))\<close> gives \<open>rows\<close> rows
  of \<open>cols\<close> values.
\<close>

definition numpy_contract :: "('w, 'r) engine \<Rightarrow> bool" where
  "numpy_contract eng \<longleftrightarrow>
     (\<forall>high n r. 0 < high \<longrightarrow>
        length (fst (np_random_randint eng high n r)) = n \<and>
        (\<forall>i\<in>set (fst (np_random_randint eng high n r)). i < high)) \<and>
     (\<forall>rows cols r.
        length (fst (np_random_normal eng rows cols r)) = rows \<and>
        (\<forall>z\<in>set (fst (np_random_normal eng rows cols r)). length z = cols))"

subsection \<open>A constant engine, for running the script on concrete inputs\<close>

definition example_metrics :: metrics where
  "example_metrics =
     \<lparr>total_loss = 2, validity_loss = 1, class_loss = 3, validity_acc = 1 / 2, class_acc = 1 / 4\<rparr>"

definition example_engine :: "(unit, unit) engine" where
  "example_engine =
     \<lparr>np_random_randint = (\<lambda>high n r. (replicate n 0, r)),
      np_random_normal = (\<lambda>rows cols r. (replicate rows (replicate cols 0), r)),
      keras_init = (\<lambda>r. ((), r)),
      layer_op = (\<lambda>w i l x. x),
      discriminator_train_on_batch = (\<lambda>cfg x v c cw w r. (example_metrics, w, r)),
      combined_train_on_batch = (\<lambda>cfg z v cw w r. (7, w, r)),
      discriminator_evaluate = (\<lambda>cfg x v c w. example_metrics),
      discriminator_predict =
        (\<lambda>w x. (map (\<lambda>i. [1]) x, map (\<lambda>i. [0.1, 0.2, 0, 0, 0, 0, 0, 0, 0, 0, 0.7]) x)),
      fig_savefig = (\<lambda>epoch imgs. None),
      prediction_report = (\<lambda>y_test y_pred. None)\<rparr>"

section \<open>Properties\<close>

subsection \<open>The helpers, the forward pass and one epoch\<close>

lemma take_rows_Inr:
  "take_rows xs idx = Inr ys \<longleftrightarrow> (\<forall>i\<in>set idx. i < length xs) \<and> ys = map (\<lambda>i. xs ! i) idx"
  by (auto simp: take_rows_def list_all_iff)

lemma to_categorical_Inr:
  "to_categorical y n = Inr c \<longleftrightarrow> (\<forall>l\<in>set y. l < n) \<and> c = map (one_hot n) y"
  by (auto simp: to_categorical_def list_all_iff)

lemma take_rows_ok:
  "\<forall>i\<in>set idx. i < length xs \<Longrightarrow> take_rows xs idx = Inr (map (\<lambda>i. xs ! i) idx)"
  by (simp add: take_rows_def list_all_iff)

lemma to_categorical_ok:
  "\<forall>l\<in>set y. l < n \<Longrightarrow> to_categorical y n = Inr (map (one_hot n) y)"
  by (simp add: to_categorical_def list_all_iff)

lemma run_layers_append:
  "run_layers op i (ls @ ms) x = run_layers op (i + length ls) ms (run_layers op i ls x)"
  by (induction ls arbitrary: i x) auto

lemma build_generator_ends:
  "\<exists>pre. build_generator = pre @ [Conv2D channels 3 1, Activation Tanh]"
  unfolding build_generator_def
  by (rule exI [of _ "[Dense (128 * 7 * 7) (Some Relu), Reshape [7, 7, 128], BatchNormalization 0.8,
      UpSampling2D, Conv2D 128 3 1, Activation Relu, BatchNormalization 0.8, UpSampling2D,
      Conv2D 64 3 1, Activation Relu, BatchNormalization 0.8]"]) simp

lemma run_build_generator:
  "\<exists>y. run_layers op 0 build_generator x = map tanh y"
proof -
  obtain pre where p: "build_generator = pre @ [Conv2D channels 3 1, Activation Tanh]"
    using build_generator_ends by blast
  show ?thesis unfolding p by (auto simp: run_layers_append)
qed

lemma length_generator_predict: "length (generator_predict op noise) = length noise"
  by (simp add: generator_predict_def)

lemma randintD:
  "numpy_contract eng \<Longrightarrow> np_random_randint eng high n r = (idx, r1) \<Longrightarrow> 0 < high
     \<Longrightarrow> length idx = n \<and> (\<forall>i\<in>set idx. i < high)"
  unfolding numpy_contract_def by (metis fst_conv)

lemma normalD:
  "numpy_contract eng \<Longrightarrow> np_random_normal eng rows cols r = (noise, r1)
     \<Longrightarrow> length noise = rows \<and> (\<forall>z\<in>set noise. length z = cols)"
  unfolding numpy_contract_def by (metis fst_conv)

lemma train_epoch_Inr:
  assumes run: "train_epoch eng X y bs hb cw si e (self, r) = Inr ((self', r'), lg)"
    and np: "numpy_contract eng"
  shows "\<exists>idx noise noise' m_real m_fake w0 r0 w1 r1 gl w3.
      0 \<le> hb \<and> X \<noteq> [] \<and> si \<noteq> 0 \<and>
      length idx = nat hb \<and> (\<forall>i\<in>set idx. i < length X \<and> i < length y \<and> y ! i \<le> num_classes) \<and>
      length noise = nat hb \<and> (\<forall>z\<in>set noise. length z = 100) \<and>
      length noise' = nat bs \<and> (\<forall>z\<in>set noise'. length z = 100) \<and>
      discriminator_train_on_batch eng discriminator_compile (map (\<lambda>i. X ! i) idx)
        (replicate (nat hb) [1]) (map (\<lambda>i. one_hot (num_classes + 1) (y ! i)) idx) cw w0 r0
        = (m_real, w1, r1) \<and>
      m_fake = fst (discriminator_train_on_batch eng discriminator_compile
        (generator_predict (layer_op eng (weights self)) noise) (replicate (nat hb) [0])
        (replicate (nat hb) (one_hot (num_classes + 1) num_classes)) cw w1 r1) \<and>
      lg = \<lparr>calls =
             [DiscriminatorTrain discriminator_compile (map (\<lambda>i. X ! i) idx) (replicate (nat hb) [1])
                (map (\<lambda>i. one_hot (num_classes + 1) (y ! i)) idx) cw,
              DiscriminatorTrain discriminator_compile
                (generator_predict (layer_op eng (weights self)) noise)
                (replicate (nat hb) [0])
                (replicate (nat hb) (one_hot (num_classes + 1) num_classes)) cw,
              CombinedTrain combined_compile noise' (replicate (nat bs) [1]) cw],
            d_loss_real = metrics_list m_real, d_loss_fake = metrics_list m_fake,
            d_loss = half_add (metrics_list m_real) (metrics_list m_fake), g_loss = gl\<rparr> \<and>
      self' = \<lparr>weights = w3,
                training_history =
                  \<lparr>D_loss = D_loss (training_history self) @ [d_loss lg ! 0],
                   D_acc = D_acc (training_history self) @ [100 * d_loss lg ! 3],
                   G_loss = G_loss (training_history self) @ [g_loss lg],
                   G_acc = G_acc (training_history self) @ [100 * d_loss lg ! 4]\<rparr>\<rparr>"
proof -
  from run have hb: "0 \<le> hb" and X: "X \<noteq> []" and si: "si \<noteq> 0"
    by (auto simp: train_epoch_def Let_def split: if_splits prod.splits sum.splits)
  obtain idx r1 where ri: "np_random_randint eng (length X) (nat hb) r = (idx, r1)"
    by (cases "np_random_randint eng (length X) (nat hb) r")
  obtain noise r2 where rn: "np_random_normal eng (nat hb) 100 r1 = (noise, r2)"
    by (cases "np_random_normal eng (nat hb) 100 r1")
  have idx: "length idx = nat hb" "\<forall>i\<in>set idx. i < length X"
    using randintD [OF np ri] X by auto
  have n: "length noise = nat hb" "\<forall>z\<in>set noise. length z = 100"
    using normalD [OF np rn] by auto
  from run hb X ri rn obtain ys where
    ys: "take_rows y idx = Inr ys"
      "to_categorical ys (Suc num_classes) = Inr (map (one_hot (Suc num_classes)) ys)"
    by (auto simp: train_epoch_def Let_def to_categorical_Inr split: if_splits prod.splits sum.splits)
  have ysd: "\<forall>i\<in>set idx. i < length y \<and> y ! i \<le> num_classes" "ys = map (\<lambda>i. y ! i) idx"
    using ys by (auto simp: take_rows_Inr to_categorical_Inr less_Suc_eq_le)
  obtain m_real w1 r3 where d1:
    "discriminator_train_on_batch eng discriminator_compile (map (\<lambda>i. X ! i) idx)
       (replicate (nat hb) [1]) (map (one_hot (Suc num_classes)) ys) cw (weights self) r2
     = (m_real, w1, r3)"
    using prod_cases3 by blast
  obtain m_fake w2 r4 where d2:
    "discriminator_train_on_batch eng discriminator_compile
       (generator_predict (layer_op eng (weights self)) noise)
       (replicate (nat hb) [0]) (replicate (nat hb) (one_hot (Suc num_classes) num_classes)) cw w1 r3
     = (m_fake, w2, r4)"
    using prod_cases3 by blast
  obtain noise' r5 where rn': "np_random_normal eng (nat bs) 100 r4 = (noise', r5)"
    by (cases "np_random_normal eng (nat bs) 100 r4")
  have n': "length noise' = nat bs" "\<forall>z\<in>set noise'. length z = 100"
    using normalD [OF np rn'] by auto
  have tx: "take_rows X idx = Inr (map (\<lambda>i. X ! i) idx)"
    using idx(2) by (rule take_rows_ok)
  have tf: "to_categorical (np_full (nat hb) num_classes) (Suc num_classes)
       = Inr (replicate (nat hb) (one_hot (Suc num_classes) num_classes))"
    by (simp add: to_categorical_ok np_full_def)
  obtain gl w3 r6 where c:
    "combined_train_on_batch eng combined_compile noise' (replicate (nat bs) [1]) cw w2 r5
     = (gl, w3, r6)"
    using prod_cases3 by blast
  let ?lg = "\<lparr>calls =
             [DiscriminatorTrain discriminator_compile (map (\<lambda>i. X ! i) idx) (replicate (nat hb) [1])
                (map (one_hot (Suc num_classes)) ys) cw,
              DiscriminatorTrain discriminator_compile
                (generator_predict (layer_op eng (weights self)) noise)
                (replicate (nat hb) [0])
                (replicate (nat hb) (one_hot (Suc num_classes) num_classes)) cw,
              CombinedTrain combined_compile noise' (replicate (nat bs) [1]) cw],
            d_loss_real = metrics_list m_real, d_loss_fake = metrics_list m_fake,
            d_loss = half_add (metrics_list m_real) (metrics_list m_fake), g_loss = gl\<rparr>"
  have res: "lg = ?lg \<and>
      self' = \<lparr>weights = w3,
                training_history =
                  \<lparr>D_loss = D_loss (training_history self) @ [d_loss ?lg ! 0],
                   D_acc = D_acc (training_history self) @ [100 * d_loss ?lg ! 3],
                   G_loss = G_loss (training_history self) @ [g_loss ?lg],
                   G_acc = G_acc (training_history self) @ [100 * d_loss ?lg ! 4]\<rparr>\<rparr>"
    using run hb X si
    by (auto simp: train_epoch_def Let_def ri rn tx ys tf d1 d2 rn' c np_ones_def np_zeros_def
        split: if_splits sum.splits)
  have ys': "map (one_hot (Suc num_classes)) ys = map (\<lambda>i. one_hot (num_classes + 1) (y ! i)) idx"
    by (simp add: ysd(2) comp_def)
  have mf: "m_fake = fst (discriminator_train_on_batch eng discriminator_compile
        (generator_predict (layer_op eng (weights self)) noise) (replicate (nat hb) [0])
        (replicate (nat hb) (one_hot (num_classes + 1) num_classes)) cw w1 r3)"
    using d2 by simp
  show ?thesis
    apply (rule exI [of _ idx], rule exI [of _ noise], rule exI [of _ noise'],
        rule exI [of _ m_real], rule exI [of _ m_fake], rule exI [of _ "weights self"],
        rule exI [of _ r2], rule exI [of _ w1], rule exI [of _ r3], rule exI [of _ gl],
        rule exI [of _ w3])
    using hb X si idx n n' ysd(1) d1 mf res unfolding ys' by simp
qed

lemma save_imgs_ok:
  "\<forall>epoch imgs. fig_savefig eng epoch imgs = None \<Longrightarrow>
     save_imgs eng w e r = Inr (snd (np_random_normal eng (5 * 5) 100 r))"
  by (simp add: save_imgs_def Let_def split_beta)

lemma train_epoch_ok:
  assumes "0 \<le> hb" "X \<noteq> []" "si \<noteq> 0" "length X \<le> length y" "\<forall>l\<in>set y. l \<le> num_classes"
    and np: "numpy_contract eng" and sv: "\<forall>epoch imgs. fig_savefig eng epoch imgs = None"
  shows "\<exists>res. train_epoch eng X y bs hb cw si e st = Inr res"
proof -
  obtain self r where st: "st = (self, r)" by (cases st)
  obtain idx r1 where ri: "np_random_randint eng (length X) (nat hb) r = (idx, r1)"
    by (cases "np_random_randint eng (length X) (nat hb) r")
  have idx: "\<forall>i\<in>set idx. i < length X"
    using randintD [OF np ri] assms(2) by auto
  have tx: "take_rows X idx = Inr (map (\<lambda>i. X ! i) idx)"
    using idx by (rule take_rows_ok)
  have ty: "take_rows y idx = Inr (map (\<lambda>i. y ! i) idx)"
    using idx assms(4) by (intro take_rows_ok) auto
  have tc: "to_categorical (map (\<lambda>i. y ! i) idx) (Suc num_classes)
      = Inr (map (one_hot (Suc num_classes)) (map (\<lambda>i. y ! i) idx))"
    using idx assms(4,5) by (intro to_categorical_ok) (auto simp: less_Suc_eq_le)
  have tf: "to_categorical (np_full (nat hb) num_classes) (Suc num_classes)
       = Inr (replicate (nat hb) (one_hot (Suc num_classes) num_classes))"
    by (simp add: to_categorical_ok np_full_def)
  show ?thesis
    using assms(1-3)
    by (simp add: st train_epoch_def Let_def ri tx ty tc tf split_beta save_imgs_ok [OF sv])
qed

lemma train_loop_logs:
  "train_loop eng X y bs hb cw si es st = Inr (st', lgs) \<Longrightarrow>
     length lgs = length es \<and>
     (\<forall>lg\<in>set lgs. \<exists>e s s'. train_epoch eng X y bs hb cw si e s = Inr (s', lg))"
proof (induction es arbitrary: st st' lgs)
  case Nil
  then show ?case by simp
next
  case (Cons e es)
  from Cons.prems obtain s1 lg lgs' where
    ep: "train_epoch eng X y bs hb cw si (int e) st = Inr (s1, lg)" and
    lp: "train_loop eng X y bs hb cw si es s1 = Inr (st', lgs')" and
    l: "lgs = lg # lgs'"
    by (auto split: sum.splits)
  have "\<exists>e s s'. train_epoch eng X y bs hb cw si e s = Inr (s', lg)"
    using ep by blast
  with Cons.IH [OF lp] l show ?case
    by (auto simp del: split_paired_Ex split_paired_All)
qed

lemma train_loop_ok:
  assumes "0 \<le> hb" "X \<noteq> []" "si \<noteq> 0" "length X \<le> length y" "\<forall>l\<in>set y. l \<le> num_classes"
    and np: "numpy_contract eng" and sv: "\<forall>epoch imgs. fig_savefig eng epoch imgs = None"
  shows "\<exists>res. train_loop eng X y bs hb cw si es st = Inr res"
proof (induction es arbitrary: st)
  case Nil
  then show ?case by simp
next
  case (Cons e es)
  obtain s1 lg where "train_epoch eng X y bs hb cw si (int e) st = Inr (s1, lg)"
    using train_epoch_ok [OF assms, of bs cw "int e" st] by auto
  moreover obtain s2 lgs where "train_loop eng X y bs hb cw si es s1 = Inr (s2, lgs)"
    using Cons [of s1] by auto
  ultimately show ?case by simp
qed

lemma train_loop_history:
  "train_loop eng X y bs hb cw si es (self, r) = Inr ((self', r'), lgs) \<Longrightarrow>
   numpy_contract eng \<Longrightarrow>
     D_loss (training_history self') = D_loss (training_history self) @ map (\<lambda>lg. d_loss lg ! 0) lgs \<and>
     D_acc (training_history self') = D_acc (training_history self) @ map (\<lambda>lg. 100 * d_loss lg ! 3) lgs \<and>
     G_loss (training_history self') = G_loss (training_history self) @ map g_loss lgs \<and>
     G_acc (training_history self') = G_acc (training_history self) @ map (\<lambda>lg. 100 * d_loss lg ! 4) lgs"
proof (induction es arbitrary: self r lgs)
  case Nil
  then show ?case by simp
next
  case (Cons e es)
  from Cons.prems(1) obtain s1 r1 lg lgs' where
    ep: "train_epoch eng X y bs hb cw si (int e) (self, r) = Inr ((s1, r1), lg)" and
    lp: "train_loop eng X y bs hb cw si es (s1, r1) = Inr ((self', r'), lgs')" and
    l: "lgs = lg # lgs'"
    by (auto split: sum.splits)
  from train_epoch_Inr [OF ep Cons.prems(2)]
  have h1: "training_history s1 =
      \<lparr>D_loss = D_loss (training_history self) @ [d_loss lg ! 0],
       D_acc = D_acc (training_history self) @ [100 * d_loss lg ! 3],
       G_loss = G_loss (training_history self) @ [g_loss lg],
       G_acc = G_acc (training_history self) @ [100 * d_loss lg ! 4]\<rparr>"
    by auto
  from Cons.IH [OF lp Cons.prems(2)] show ?case
    by (simp add: h1 l)
qed

subsection \<open>Rounding to doubles\<close>

lemma round_half_even_error: "\<bar>of_int (round_half_even x) - x\<bar> \<le> 1 / 2"
  unfolding round_half_even_def Let_def by (auto simp: abs_if) linarith+

lemma round_half_even_of_int [simp]: "round_half_even (of_int k) = k"
  by (simp add: round_half_even_def)

lemma floor_log2_eq:
  assumes "2 powi e \<le> x" "x < 2 powi (e + 1)"
  shows "\<lfloor>log 2 x\<rfloor> = e"
proof -
  have "(0::real) < 2 powi e" by simp
  with assms(1) have pos: "0 < x" by linarith
  have "(2::real) powr of_int e = 2 powi e" by (simp add: powr_real_of_int')
  moreover have "(2::real) powr of_int (e + 1) = 2 powi (e + 1)"
    by (rule powr_real_of_int') simp_all
  ultimately show ?thesis
    using assms pos by (simp add: floor_log_eq_powr_iff add.commute)
qed

lemma floor_log2_bounds:
  assumes "0 < x"
  shows "2 powi \<lfloor>log 2 x\<rfloor> \<le> x \<and> x < 2 powi (\<lfloor>log 2 x\<rfloor> + 1)"
proof -
  let ?e = "\<lfloor>log 2 x\<rfloor>"
  have "2 powr of_int ?e \<le> x \<and> x < 2 powr (of_int ?e + 1)"
    using floor_log_eq_powr_iff [of x 2 ?e] assms by simp
  moreover have "(2::real) powr of_int ?e = 2 powi ?e" by (simp add: powr_real_of_int')
  moreover have "(2::real) powr (of_int ?e + 1) = 2 powi (?e + 1)"
    using powr_real_of_int' [of 2 "?e + 1"] by simp
  ultimately show ?thesis by simp
qed

lemma double_exponent_eq:
  assumes "2 powi e \<le> \<bar>x\<bar>" "\<bar>x\<bar> < 2 powi (e + 1)" "- 1022 \<le> e"
  shows "double_exponent x = e"
  using floor_log2_eq [OF assms(1,2)] assms(3) by (simp add: double_exponent_def)


lemma double_exponent_bounds:
  assumes "2 powi (- 1022) \<le> \<bar>x\<bar>"
  shows "- 1022 \<le> double_exponent x \<and> 2 powi double_exponent x \<le> \<bar>x\<bar> \<and>
         \<bar>x\<bar> < 2 powi (double_exponent x + 1)"
proof -
  have "(0::real) < 2 powi (- 1022)" by simp
  with assms have pos: "0 < \<bar>x\<bar>" by linarith
  let ?e = "\<lfloor>log 2 \<bar>x\<bar>\<rfloor>"
  note b = floor_log2_bounds [OF pos]
  have "- 1022 \<le> ?e"
  proof (rule ccontr)
    assume "\<not> - 1022 \<le> ?e"
    then have "?e + 1 \<le> - 1022" by linarith
    then have "(2::real) powi (?e + 1) \<le> 2 powi (- 1022)"
      by (intro power_int_increasing) simp_all
    with b assms show False by linarith
  qed
  then have "double_exponent x = ?e" by (simp add: double_exponent_def)
  with b \<open>- 1022 \<le> ?e\<close> show ?thesis by simp
qed

lemma round_double_error:
  assumes "2 powi (- 1022) \<le> \<bar>x\<bar>"
  shows "\<bar>round_double x - x\<bar> \<le> \<bar>x\<bar> / 2 ^ 53"
proof -
  let ?e = "double_exponent x"
  let ?q = "(2::real) powi (?e - 52)"
  note b = double_exponent_bounds [OF assms]
  have "(0::real) < 2 powi (- 1022)" by simp
  with assms have nz: "x \<noteq> 0" by auto
  have q: "0 < ?q" by simp
  have rd: "round_double x = of_int (round_half_even (x / ?q)) * ?q"
    using nz by (simp add: round_double_def)
  have "round_double x - x = (of_int (round_half_even (x / ?q)) - x / ?q) * ?q"
    using q by (simp add: rd field_simps)
  then have "\<bar>round_double x - x\<bar> = \<bar>of_int (round_half_even (x / ?q)) - x / ?q\<bar> * ?q"
    using q by (simp add: abs_mult)
  also have "\<dots> \<le> (1 / 2) * ?q"
    using round_half_even_error [of "x / ?q"] q by (intro mult_right_mono) simp_all
  also have "(1 / 2) * ?q = 2 powi ?e / 2 ^ 53"
    by (simp add: power_int_diff)
  also have "\<dots> \<le> \<bar>x\<bar> / 2 ^ 53"
    using b by (intro divide_right_mono) simp_all
  finally show ?thesis .
qed

lemma round_double_exact:
  assumes "x \<noteq> 0" "x = of_int k * 2 powi (double_exponent x - 52)"
  shows "round_double x = x"
proof -
  let ?q = "(2::real) powi (double_exponent x - 52)"
  have "x / ?q = of_int k"
    using assms(2) by (metis nonzero_mult_div_cancel_right power_int_eq_0_iff zero_neq_numeral)
  then show ?thesis using assms by (simp add: round_double_def)
qed

lemma round_double_int:
  assumes "\<bar>k\<bar> \<le> 2 ^ 53"
  shows "round_double (of_int k) = of_int k"
proof (cases "k = 0")
  case True
  then show ?thesis by (simp add: round_double_def)
next
  case False
  let ?x = "real_of_int k"
  have one: "1 \<le> \<bar>?x\<bar>" using False by (simp add: abs_if)
  have "(2::real) powi (- 1022) \<le> 1"
    by (simp add: power_int_minus field_simps)
  with one have "2 powi (- 1022) \<le> \<bar>?x\<bar>" by linarith
  note b = double_exponent_bounds [OF this]
  let ?e = "double_exponent ?x"
  have up: "\<bar>?x\<bar> \<le> 2 ^ 53" using assms by (metis of_int_abs of_int_le_iff of_int_numeral of_int_power)
  have e53: "?e \<le> 53"
  proof (rule ccontr)
    assume "\<not> ?e \<le> 53"
    then have "(2::real) powi 54 \<le> 2 powi ?e"
      by (intro power_int_increasing) simp_all
    with b up show False by simp
  qed
  have e0: "0 \<le> ?e"
  proof (rule ccontr)
    assume "\<not> 0 \<le> ?e"
    then have "(2::real) powi (?e + 1) \<le> 2 powi 0"
      by (intro power_int_increasing) simp_all
    with b one show False by simp
  qed
  show ?thesis
  proof (cases "?e \<le> 52")
    case True
    have "(2::real) powi (?e - 52) * 2 ^ nat (52 - ?e) = 1"
      using True by (simp add: power_int_def field_simps)
    then have "?x = of_int (k * 2 ^ nat (52 - ?e)) * 2 powi (?e - 52)"
      by (simp add: mult.assoc mult.commute [of "2 powi (?e - 52)"])
    with False show ?thesis by (intro round_double_exact [where k = "k * 2 ^ nat (52 - ?e)"]) simp_all
  next
    case False
    with e53 have e: "?e = 53" by simp
    have "2 ^ 53 \<le> \<bar>?x\<bar>" using b e by simp
    with up have "\<bar>?x\<bar> = 2 ^ 53" by simp
    then have "\<bar>k\<bar> = 2 ^ 53" by (metis of_int_abs of_int_eq_iff of_int_numeral of_int_power)
    then have "k = 2 ^ 53 \<or> k = - (2 ^ 53)" by (simp add: abs_if split: if_splits)
    then have "?x = of_int (k div 2) * 2 powi (?e - 52)"
      by (auto simp: e)
    with \<open>k \<noteq> 0\<close> show ?thesis by (intro round_double_exact [where k = "k div 2"]) simp_all
  qed
qed

lemma py_int_of_int [simp]: "py_int (of_int k) = k"
  by (simp add: py_int_def)

lemma half_batch_of_even:
  assumes "even batch_size" "\<bar>batch_size\<bar> \<le> 2 ^ 54"
  shows "2 * half_batch_of batch_size = batch_size"
proof -
  from assms(1) obtain k where k: "batch_size = 2 * k" by (elim evenE)
  with assms(2) have "\<bar>k\<bar> \<le> 2 ^ 53" by simp
  then have "round_double (of_int k) = of_int k" by (rule round_double_int)
  then show ?thesis by (simp add: half_batch_of_def k)
qed

lemma round_double_tie: "round_double (2 ^ 53 + 1) = 2 ^ 53"
proof -
  have e: "double_exponent (2 ^ 53 + 1) = 53"
    by (rule double_exponent_eq) simp_all
  have "round_half_even ((2 ^ 53 + 1) / 2) = 2 ^ 52"
    by (simp add: round_half_even_def Let_def)
  then show ?thesis using e by (simp add: round_double_def)
qed

lemma half_batch_of_tie: "half_batch_of (2 ^ 54 + 2) = 2 ^ 53"
proof -
  have "real_of_int (2 ^ 54 + 2) / 2 = 2 ^ 53 + 1" by simp
  then have "round_double (real_of_int (2 ^ 54 + 2) / 2) = of_int (2 ^ 53)"
    using round_double_tie by simp
  then show ?thesis unfolding half_batch_of_def by (simp only: py_int_of_int)
qed

lemma rel_error_mult:
  fixes a b A B :: real
  assumes "\<bar>a - A\<bar> \<le> \<bar>A\<bar> * e1" "\<bar>b - B\<bar> \<le> \<bar>B\<bar> * e2"
  shows "\<bar>a * b - A * B\<bar> \<le> \<bar>A * B\<bar> * (e1 + e2 + e1 * e2)"
proof -
  have e1: "0 \<le> \<bar>A\<bar> * e1" and e2: "0 \<le> \<bar>B\<bar> * e2"
    using assms abs_ge_zero order_trans by blast+
  have "a * b - A * B = (a - A) * (b - B) + A * (b - B) + (a - A) * B"
    by (simp add: algebra_simps)
  then have "\<bar>a * b - A * B\<bar> \<le> \<bar>(a - A) * (b - B)\<bar> + \<bar>A * (b - B)\<bar> + \<bar>(a - A) * B\<bar>"
    by linarith
  also have "\<dots> = \<bar>a - A\<bar> * \<bar>b - B\<bar> + \<bar>A\<bar> * \<bar>b - B\<bar> + \<bar>a - A\<bar> * \<bar>B\<bar>"
    by (simp add: abs_mult)
  also have "\<dots> \<le> (\<bar>A\<bar> * e1) * (\<bar>B\<bar> * e2) + \<bar>A\<bar> * (\<bar>B\<bar> * e2) + (\<bar>A\<bar> * e1) * \<bar>B\<bar>"
    using assms e1 e2 by (intro add_mono mult_mono) simp_all
  also have "\<dots> = \<bar>A * B\<bar> * (e1 + e2 + e1 * e2)"
    by (simp add: abs_mult algebra_simps)
  finally show ?thesis .
qed

lemma round_double_near_one:
  assumes "\<bar>x - 1\<bar> \<le> d" "d \<le> 3 / 2 ^ 53"
  shows "\<bar>round_double x - 1\<bar> \<le> d + (1 + d) / 2 ^ 53"
proof -
  have x: "1 - d \<le> x" "x \<le> 1 + d" using assms(1) by (simp_all add: abs_le_iff)
  have "(3::real) / 2 ^ 53 \<le> 1 / 2" by simp
  with x assms(2) have half: "1 / 2 \<le> x" by linarith
  have "(2::real) powi (- 1022) \<le> 1 / 2"
    by (simp add: power_int_minus field_simps)
  with half have "2 powi (- 1022) \<le> \<bar>x\<bar>" by simp
  from round_double_error [OF this] have "\<bar>round_double x - x\<bar> \<le> \<bar>x\<bar> / 2 ^ 53" .
  also have "\<dots> \<le> (1 + d) / 2 ^ 53"
    using x half by (intro divide_right_mono) simp_all
  finally have "\<bar>round_double x - x\<bar> \<le> (1 + d) / 2 ^ 53" .
  with assms(1) show ?thesis by linarith
qed

lemma quotient_normal:
  fixes hb :: int and n :: real
  assumes "hb \<noteq> 0" "\<bar>hb\<bar> \<le> 2 ^ 53" "1 \<le> n"
  shows "2 powi (- 1022) \<le> \<bar>n / of_int hb\<bar>"
proof -
  let ?h = "real_of_int hb"
  have h: "0 < \<bar>?h\<bar>" using assms(1) by simp
  have "real_of_int \<bar>hb\<bar> \<le> real_of_int (2 ^ 53)"
    using assms(2) by (simp only: of_int_le_iff)
  then have h2: "\<bar>?h\<bar> \<le> 2 ^ 53" by simp
  have "(2::real) powi (- 1022) \<le> 1 / 2 ^ 53"
    by (simp add: power_int_minus field_simps)
  also have "\<dots> \<le> 1 / \<bar>?h\<bar>"
    using h h2 by (intro divide_left_mono) simp_all
  also have "\<dots> \<le> n / \<bar>?h\<bar>"
    using assms(3) h by (intro divide_right_mono) simp_all
  finally show ?thesis using assms(3) by simp
qed

lemma quotient_error:
  fixes hb :: int and n :: real
  assumes "hb \<noteq> 0" "\<bar>hb\<bar> \<le> 2 ^ 53" "1 \<le> n"
  shows "\<bar>round_double (n / of_int hb) - n / of_int hb\<bar> \<le> \<bar>n / of_int hb\<bar> * (1 / 2 ^ 53)"
  using round_double_error [OF quotient_normal [OF assms]] by simp

lemma weight_mass:
  fixes hb :: int and n :: real
  assumes "hb \<noteq> 0" "\<bar>hb\<bar> \<le> 2 ^ 53" "1 \<le> n"
  shows "\<bar>round_double (n / of_int hb) * (of_int hb / n) - 1\<bar> \<le> 1 / 2 ^ 53"
proof -
  let ?h = "real_of_int hb"
  have h: "?h \<noteq> 0" and n: "n \<noteq> 0" using assms by auto
  have "\<bar>round_double (n / ?h) - n / ?h\<bar> \<le> \<bar>n / ?h\<bar> * (1 / 2 ^ 53)"
    by (rule quotient_error [OF assms])
  moreover have "\<bar>?h / n - ?h / n\<bar> \<le> \<bar>?h / n\<bar> * 0" by simp
  ultimately have "\<bar>round_double (n / ?h) * (?h / n) - (n / ?h) * (?h / n)\<bar>
      \<le> \<bar>(n / ?h) * (?h / n)\<bar> * (1 / 2 ^ 53 + 0 + (1 / 2 ^ 53) * 0)"
    by (rule rel_error_mult)
  moreover have "(n / ?h) * (?h / n) = 1" using h n by simp
  ultimately show ?thesis by simp
qed

lemma float_mass_fake:
  fixes hb :: int
  assumes "hb \<noteq> 0" "\<bar>hb\<bar> \<le> 2 ^ 53"
  shows "\<bar>float_mul (round_double (1 / of_int hb)) (of_int hb) - 1\<bar> \<le> 1 / 2 ^ 51"
proof -
  let ?h = "real_of_int hb"
  have "\<bar>round_double (1 / ?h) * (?h / 1) - 1\<bar> \<le> 1 / 2 ^ 53"
    by (rule weight_mass [OF assms]) simp
  then have d: "\<bar>round_double (1 / ?h) * ?h - 1\<bar> \<le> 1 / 2 ^ 53" by simp
  have "\<bar>round_double (round_double (1 / ?h) * ?h) - 1\<bar> \<le> 1 / 2 ^ 53 + (1 + 1 / 2 ^ 53) / 2 ^ 53"
    by (rule round_double_near_one [OF d]) simp
  also have "\<dots> \<le> 1 / 2 ^ 51" by simp
  finally show ?thesis by (simp add: float_mul_def)
qed

lemma float_mass_real:
  fixes hb :: int
  assumes "hb \<noteq> 0" "\<bar>hb\<bar> \<le> 2 ^ 53"
  shows "\<bar>float_mul (round_double (10 / of_int hb)) (float_div (of_int hb) 10) - 1\<bar> \<le> 1 / 2 ^ 51"
proof -
  let ?h = "real_of_int hb"
  let ?u = "(1::real) / 2 ^ 53"
  have h: "?h \<noteq> 0" "1 \<le> \<bar>?h\<bar>" using assms(1) by (simp_all add: abs_if)
  have a: "\<bar>round_double (10 / ?h) - 10 / ?h\<bar> \<le> \<bar>10 / ?h\<bar> * ?u"
    by (rule quotient_error [OF assms]) simp
  have "(2::real) powi (- 1022) \<le> 1 / 10"
    by (simp add: power_int_minus field_simps)
  also have "\<dots> \<le> \<bar>?h\<bar> / 10" using h by simp
  finally have "2 powi (- 1022) \<le> \<bar>?h / 10\<bar>" by simp
  from round_double_error [OF this]
  have b: "\<bar>round_double (?h / 10) - ?h / 10\<bar> \<le> \<bar>?h / 10\<bar> * ?u" by simp
  have "\<bar>round_double (10 / ?h) * round_double (?h / 10) - (10 / ?h) * (?h / 10)\<bar>
      \<le> \<bar>(10 / ?h) * (?h / 10)\<bar> * (?u + ?u + ?u * ?u)"
    using a b by (rule rel_error_mult)
  moreover have "(10 / ?h) * (?h / 10) = 1" using h by simp
  ultimately have d: "\<bar>round_double (10 / ?h) * round_double (?h / 10) - 1\<bar> \<le> ?u + ?u + ?u * ?u"
    by simp
  have "\<bar>round_double (round_double (10 / ?h) * round_double (?h / 10)) - 1\<bar>
      \<le> (?u + ?u + ?u * ?u) + (1 + (?u + ?u + ?u * ?u)) / 2 ^ 53"
    by (rule round_double_near_one [OF d]) simp
  also have "\<dots> \<le> 1 / 2 ^ 51" by simp
  finally show ?thesis by (simp add: float_mul_def float_div_def)
qed

subsection \<open>Class weights\<close>

lemma cw2_genuine:
  "i < num_classes \<Longrightarrow> cw2 hb i = Some (round_double (real num_classes / real_of_int hb))"
  by (simp add: cw2_def)

lemma cw2_sentinel: "cw2 hb num_classes = Some (round_double (1 / real_of_int hb))"
  by (simp add: cw2_def)

lemma cw2_dom: "dom (cw2 hb) = {0..num_classes}"
  by (auto simp: cw2_def dom_def split: if_splits)

lemma class_weights_even:
  assumes "even batch_size" "batch_size \<noteq> 0" "\<bar>batch_size\<bar> \<le> 2 ^ 54"
  shows "half_batch_of batch_size = batch_size div 2 \<and>
         class_weights batch_size = Inr (cw1, cw2 (batch_size div 2))"
proof -
  from assms(1) obtain k where k: "batch_size = 2 * k" by (elim evenE)
  with assms(2,3) have kb: "\<bar>k\<bar> \<le> 2 ^ 53" "k \<noteq> 0" by simp_all
  have r: "round_double (of_int batch_size / 2) = of_int k"
    using round_double_int [OF kb(1)] by (simp add: k)
  have "real_of_int \<bar>k\<bar> \<le> real_of_int (2 ^ 53)"
    using kb(1) by (simp only: of_int_le_iff)
  then have "\<bar>real_of_int k\<bar> \<le> 2 ^ 53" by simp
  also have "\<dots> < (2::real) ^ 1024" by simp
  finally have small: "\<not> 2 ^ 1024 \<le> \<bar>real_of_int k\<bar>" by simp
  have "py_truediv batch_size 2 = Inr (of_int k)"
    using r small by (simp add: py_truediv_def)
  then show ?thesis
    using kb(2) r by (simp add: class_weights_def half_batch_of_def k)
qed

text \<open>
  C1, as stated, fails: with the default batch size 32 the half batch is 16, the sentinel
  weight times the half batch is 1, while the weight of a genuine class times
  (half batch / number of classes) times the number of classes is 10.
\<close>

theorem class_weight_mass_counterexample:
  "class_weights 32 = Inr (cw1, cw2 16) \<and>
   the (cw2 16 num_classes) * 16
     \<noteq> the (cw2 16 3) * (16 / real num_classes) * real num_classes"
proof -
  have cw: "class_weights 32 = Inr (cw1, cw2 16)"
    using class_weights_even [of 32] by simp
  have f: "\<bar>round_double (1 / real_of_int 16) * (real_of_int 16 / 1) - 1\<bar> \<le> 1 / 2 ^ 53"
    by (rule weight_mass) simp_all
  have g: "\<bar>round_double (10 / real_of_int 16) * (real_of_int 16 / 10) - 1\<bar> \<le> 1 / 2 ^ 53"
    by (rule weight_mass) simp_all
  have u: "(1::real) / 2 ^ 53 < 1 / 2" by simp
  have f': "\<bar>round_double (1 / 16) * 16 - 1\<bar> \<le> 1 / 2 ^ 53" using f by simp
  have g': "\<bar>round_double (10 / 16) * (16 / 10) - 1\<bar> \<le> 1 / 2 ^ 53" using g by simp
  have "round_double (1 / 16) * 16 < 2"
    using f' u by linarith
  moreover have "2 < round_double (10 / 16) * (16 / 10) * 10"
    using g' u by linarith
  ultimately have "round_double (1 / 16) * 16 \<noteq> round_double (10 / 16) * (16 / 10) * 10"
    by linarith
  then show ?thesis
    using cw by (simp add: cw2_def num_classes_def)
qed

text \<open>
  C1, amended: for every even batch size other than zero and of magnitude at most
  \<open>2 ^ 54\<close>, \<open>train\<close> builds the class-head map with the double nearest
  \<open>num_classes / half_batch\<close> on each genuine class 0..9 and the double nearest
  \<open>1 / half_batch\<close> on the sentinel class, on no other key; and the sentinel weight
  times the half batch and the weight of a genuine class times
  (half batch / number of classes) are both 1 up to rounding: within \<open>2 ^ -53\<close> for the
  exact products of the stored weights, within \<open>2 ^ -51\<close> when the products and the
  quotient are themselves computed in doubles. Every one of the eleven classes
  carries the same weighted mass when the real labels are uniformly distributed.
\<close>

theorem class_weight_mass_per_class:
  assumes "even batch_size" and "batch_size \<noteq> 0" and "\<bar>batch_size\<bar> \<le> 2 ^ 54"
  shows "\<exists>hb w. 2 * hb = batch_size \<and> class_weights batch_size = Inr (cw1, w) \<and>
           (\<forall>i<num_classes. w i = Some (round_double (real num_classes / real_of_int hb))) \<and>
           w num_classes = Some (round_double (1 / real_of_int hb)) \<and>
           dom w = {0..num_classes} \<and>
           \<bar>the (w num_classes) * real_of_int hb - 1\<bar> \<le> 1 / 2 ^ 53 \<and>
           (\<forall>i<num_classes.
              \<bar>the (w i) * (real_of_int hb / real num_classes) - 1\<bar> \<le> 1 / 2 ^ 53) \<and>
           \<bar>float_mul (the (w num_classes)) (real_of_int hb) - 1\<bar> \<le> 1 / 2 ^ 51 \<and>
           (\<forall>i<num_classes.
              \<bar>float_mul (the (w i)) (float_div (real_of_int hb) (real num_classes)) - 1\<bar>
                \<le> 1 / 2 ^ 51)"
proof -
  let ?hb = "batch_size div 2"
  have hb2: "2 * ?hb = batch_size" using assms(1) by simp
  with assms(2,3) have nz: "?hb \<noteq> 0" and small: "\<bar>?hb\<bar> \<le> 2 ^ 53" by auto
  have cw: "class_weights batch_size = Inr (cw1, cw2 ?hb)"
    using class_weights_even [OF assms] by simp
  have nc: "real num_classes = 10" by (simp add: num_classes_def)
  have mass_fake: "\<bar>the (cw2 ?hb num_classes) * real_of_int ?hb - 1\<bar> \<le> 1 / 2 ^ 53"
    using weight_mass [OF nz small, of 1] by (simp add: cw2_sentinel)
  have mass_real: "\<bar>the (cw2 ?hb i) * (real_of_int ?hb / real num_classes) - 1\<bar> \<le> 1 / 2 ^ 53"
    if "i < num_classes" for i
    using weight_mass [OF nz small, of 10] that by (simp add: cw2_genuine nc)
  have float_fake: "\<bar>float_mul (the (cw2 ?hb num_classes)) (real_of_int ?hb) - 1\<bar> \<le> 1 / 2 ^ 51"
    using float_mass_fake [OF nz small] by (simp add: cw2_sentinel)
  have float_real:
    "\<bar>float_mul (the (cw2 ?hb i)) (float_div (real_of_int ?hb) (real num_classes)) - 1\<bar> \<le> 1 / 2 ^ 51"
    if "i < num_classes" for i
    using float_mass_real [OF nz small] that by (simp add: cw2_genuine nc)
  show ?thesis
    apply (rule exI [of _ ?hb], rule exI [of _ "cw2 ?hb"])
    using hb2 cw mass_fake mass_real float_fake float_real cw2_genuine cw2_sentinel cw2_dom
    by simp
qed

theorem class_weight_mass_per_class_witness:
  "even (32::int) \<and> (32::int) \<noteq> 0 \<and> \<bar>32::int\<bar> \<le> 2 ^ 54 \<and>
   class_weights 32 = Inr (cw1, cw2 16) \<and>
   cw2 16 num_classes = Some (round_double (1 / 16)) \<and>
   \<bar>the (cw2 16 num_classes) * 16 - 1\<bar> \<le> 1 / 2 ^ 53 \<and>
   \<bar>the (cw2 16 3) * (16 / real num_classes) - 1\<bar> \<le> 1 / 2 ^ 53 \<and>
   \<bar>float_mul (the (cw2 16 num_classes)) 16 - 1\<bar> \<le> 1 / 2 ^ 51 \<and>
   \<bar>float_mul (the (cw2 16 3)) (float_div 16 (real num_classes)) - 1\<bar> \<le> 1 / 2 ^ 51"
proof -
  have cw: "class_weights 32 = Inr (cw1, cw2 16)"
    using class_weights_even [of 32] by simp
  have three: "(3::nat) < num_classes" by (simp add: num_classes_def)
  from class_weight_mass_per_class [of 32] obtain hb w where
    h: "2 * hb = (32::int)" "class_weights 32 = Inr (cw1, w)"
      "w num_classes = Some (round_double (1 / real_of_int hb))"
      "\<bar>the (w num_classes) * real_of_int hb - 1\<bar> \<le> 1 / 2 ^ 53"
      "\<forall>i<num_classes. \<bar>the (w i) * (real_of_int hb / real num_classes) - 1\<bar> \<le> 1 / 2 ^ 53"
      "\<bar>float_mul (the (w num_classes)) (real_of_int hb) - 1\<bar> \<le> 1 / 2 ^ 51"
      "\<forall>i<num_classes.
         \<bar>float_mul (the (w i)) (float_div (real_of_int hb) (real num_classes)) - 1\<bar> \<le> 1 / 2 ^ 51"
    by auto
  from h(1) have hb: "hb = 16" by simp
  from h(2) cw have w: "w = cw2 16" by simp
  show ?thesis
    using cw h(3-7) three unfolding hb w by simp
qed

subsection \<open>The training loop\<close>

lemma example_contract: "numpy_contract example_engine"
  by (simp add: numpy_contract_def example_engine_def)

lemma train_Inr_iff:
  "train eng X y epochs bs si st = Inr res \<longleftrightarrow>
     \<not> 2 ^ 1024 \<le> \<bar>round_double (of_int bs / 2)\<bar> \<and>
     half_batch_of bs \<noteq> 0 \<and>
     train_loop eng X y bs (half_batch_of bs) [cw1, cw2 (half_batch_of bs)] si [0..<nat epochs] st
       = Inr res"
  by (simp add: train_def class_weights_def py_truediv_def half_batch_of_def Let_def)

lemma train_even:
  assumes "even bs" "bs \<noteq> 0" "\<bar>bs\<bar> \<le> 2 ^ 54"
  shows "train eng X y epochs bs si st =
     train_loop eng X y bs (bs div 2) [cw1, cw2 (bs div 2)] si [0..<nat epochs] st"
  using class_weights_even [OF assms] by (simp add: train_def)

lemma example_epoch:
  "train_epoch example_engine [[0]] [3] 2 1 cw 1 e (self, ()) =
     Inr ((\<lparr>weights = (),
            training_history =
              \<lparr>D_loss = D_loss (training_history self) @ [2],
               D_acc = D_acc (training_history self) @ [50],
               G_loss = G_loss (training_history self) @ [7],
               G_acc = G_acc (training_history self) @ [25]\<rparr>\<rparr>, ()),
          \<lparr>calls = [DiscriminatorTrain discriminator_compile [[0]] [[1]] [one_hot 11 3] cw,
                     DiscriminatorTrain discriminator_compile
                       (generator_predict (\<lambda>i l x. x) [replicate 100 0]) [[0]] [one_hot 11 10] cw,
                     CombinedTrain combined_compile [replicate 100 0, replicate 100 0] [[1], [1]] cw],
            d_loss_real = [2, 1, 3, 1 / 2, 1 / 4], d_loss_fake = [2, 1, 3, 1 / 2, 1 / 4],
            d_loss = [2, 1, 3, 1 / 2, 1 / 4], g_loss = 7\<rparr>)"
  by (simp add: train_epoch_def example_engine_def example_metrics_def Let_def take_rows_def
      to_categorical_def np_full_def np_ones_def np_zeros_def num_classes_def metrics_list_def
      half_add_def save_imgs_def numeral_2_eq_2)

lemma example_init:
  "DCGAN_init example_engine () =
     (\<lparr>weights = (), training_history = \<lparr>D_loss = [], D_acc = [], G_loss = [], G_acc = []\<rparr>\<rparr>, ())"
  by (simp add: DCGAN_init_def example_engine_def)

lemma example_train1:
  "train example_engine [[0]] [3] 1 2 1 (DCGAN_init example_engine ()) =
     Inr ((\<lparr>weights = (),
            training_history = \<lparr>D_loss = [2], D_acc = [50], G_loss = [7], G_acc = [25]\<rparr>\<rparr>, ()),
          [\<lparr>calls = [DiscriminatorTrain discriminator_compile [[0]] [[1]] [one_hot 11 3] [cw1, cw2 1],
                     DiscriminatorTrain discriminator_compile
                       (generator_predict (\<lambda>i l x. x) [replicate 100 0]) [[0]] [one_hot 11 10] [cw1, cw2 1],
                     CombinedTrain combined_compile [replicate 100 0, replicate 100 0] [[1], [1]] [cw1, cw2 1]],
            d_loss_real = [2, 1, 3, 1 / 2, 1 / 4], d_loss_fake = [2, 1, 3, 1 / 2, 1 / 4],
            d_loss = [2, 1, 3, 1 / 2, 1 / 4], g_loss = 7\<rparr>])"
proof -
  have "train example_engine [[0]] [3] 1 2 1 (DCGAN_init example_engine ()) =
     train_loop example_engine [[0]] [3] 2 (2 div 2) [cw1, cw2 (2 div 2)] 1 [0..<nat 1]
       (DCGAN_init example_engine ())"
    by (rule train_even) simp_all
  then show ?thesis by (simp add: example_init example_epoch)
qed

lemma half_batch_of_2: "half_batch_of 2 = 1"
  using class_weights_even [of 2] by simp




lemma train_history:
  assumes "train eng X y epochs bs si (self, r) = Inr ((self', r'), lgs)" "numpy_contract eng"
  shows "length lgs = nat epochs \<and>
     D_loss (training_history self') = D_loss (training_history self) @ map (\<lambda>lg. d_loss lg ! 0) lgs \<and>
     D_acc (training_history self') = D_acc (training_history self) @ map (\<lambda>lg. 100 * d_loss lg ! 3) lgs \<and>
     G_loss (training_history self') = G_loss (training_history self) @ map g_loss lgs \<and>
     G_acc (training_history self') = G_acc (training_history self) @ map (\<lambda>lg. 100 * d_loss lg ! 4) lgs"
proof -
  let ?hb = "half_batch_of bs"
  from assms(1) have lp: "train_loop eng X y bs ?hb [cw1, cw2 ?hb] si [0..<nat epochs] (self, r)
      = Inr ((self', r'), lgs)"
    by (simp add: train_Inr_iff)
  from train_loop_logs [OF lp] train_loop_history [OF lp assms(2)] show ?thesis by simp
qed

lemma example_train2:
  "train example_engine [[0]] [3] 2 2 1 (DCGAN_init example_engine ()) =
     Inr ((\<lparr>weights = (),
            training_history =
              \<lparr>D_loss = [2, 2], D_acc = [50, 50], G_loss = [7, 7], G_acc = [25, 25]\<rparr>\<rparr>, ()),
          replicate 2
          \<lparr>calls = [DiscriminatorTrain discriminator_compile [[0]] [[1]] [one_hot 11 3] [cw1, cw2 1],
                     DiscriminatorTrain discriminator_compile
                       (generator_predict (\<lambda>i l x. x) [replicate 100 0]) [[0]] [one_hot 11 10] [cw1, cw2 1],
                     CombinedTrain combined_compile [replicate 100 0, replicate 100 0] [[1], [1]] [cw1, cw2 1]],
            d_loss_real = [2, 1, 3, 1 / 2, 1 / 4], d_loss_fake = [2, 1, 3, 1 / 2, 1 / 4],
            d_loss = [2, 1, 3, 1 / 2, 1 / 4], g_loss = 7\<rparr>)"
proof -
  have "train example_engine [[0]] [3] 2 2 1 (DCGAN_init example_engine ()) =
     train_loop example_engine [[0]] [3] 2 (2 div 2) [cw1, cw2 (2 div 2)] 1 [0..<nat 2]
       (DCGAN_init example_engine ())"
    by (rule train_even) simp_all
  then show ?thesis
    by (simp add: example_init example_epoch numeral_2_eq_2 upt_rec [of 0] upt_rec [of 1])
qed

subsection \<open>The training history\<close>

text \<open>
  C4, as stated, fails: the history holds four series and no epoch number. After a run of
  two epochs on the constant engine the two per-epoch records are the same four
  numbers; the fourth, kept under \<open>G_acc\<close>, is 100 times the class-head accuracy of the
  discriminator steps.
\<close>

theorem training_history_counterexample:
  "history_records (training_history (fst (fst (projr
      (train example_engine [[0]] [3] 2 2 1 (DCGAN_init example_engine ()))))))
   = [(2, 50, 7, 25), (2, 50, 7, 25)]"
  by (simp add: example_train2 history_records_def)

text \<open>
  C4, amended: a run of \<open>train\<close> over E epochs appends exactly E entries, one per epoch
  and in epoch order, to each of the four series \<open>D_loss\<close>, \<open>D_acc\<close>, \<open>G_loss\<close>, \<open>G_acc\<close>
  and changes no earlier entry: epoch e appends \<open>d_loss[0]\<close>, \<open>100 * d_loss[3]\<close> and
  \<open>g_loss\<close> of that epoch to the first three. The epoch number is the position only.
  On a new \<open>DCGAN\<close>, whose series are empty, the history ends with exactly E records.
\<close>

theorem training_history_appended:
  assumes "train eng X_train y_train epochs batch_size save_interval (self, r) = Inr ((self', r'), lgs)"
    and "numpy_contract eng"
  shows "length lgs = nat epochs \<and>
     D_loss (training_history self') =
       D_loss (training_history self) @ map (\<lambda>lg. d_loss lg ! 0) lgs \<and>
     D_acc (training_history self') =
       D_acc (training_history self) @ map (\<lambda>lg. 100 * d_loss lg ! 3) lgs \<and>
     G_loss (training_history self') = G_loss (training_history self) @ map g_loss lgs \<and>
     (\<exists>ext. length ext = nat epochs \<and>
        G_acc (training_history self') = G_acc (training_history self) @ ext) \<and>
     training_history (fst (DCGAN_init eng r0)) = \<lparr>D_loss = [], D_acc = [], G_loss = [], G_acc = []\<rparr> \<and>
     (training_history self = \<lparr>D_loss = [], D_acc = [], G_loss = [], G_acc = []\<rparr> \<longrightarrow>
        length (history_records (training_history self')) = nat epochs \<and>
        length (D_loss (training_history self')) = nat epochs \<and>
        length (D_acc (training_history self')) = nat epochs \<and>
        length (G_loss (training_history self')) = nat epochs \<and>
        length (G_acc (training_history self')) = nat epochs)"
proof -
  note h = train_history [OF assms]
  have ext: "\<exists>ext. length ext = nat epochs \<and>
        G_acc (training_history self') = G_acc (training_history self) @ ext"
    using h by (intro exI [of _ "map (\<lambda>lg. 100 * d_loss lg ! 4) lgs"]) simp
  have init: "training_history (fst (DCGAN_init eng r0))
      = \<lparr>D_loss = [], D_acc = [], G_loss = [], G_acc = []\<rparr>"
    by (simp add: DCGAN_init_def split_beta)
  show ?thesis
    using h ext init by (auto simp: history_records_def)
qed

theorem training_history_appended_witness:
  "numpy_contract example_engine \<and>
   (\<exists>self' lgs. train example_engine [[0]] [3] 2 2 1 (DCGAN_init example_engine ())
        = Inr ((self', ()), lgs) \<and>
      length lgs = 2 \<and> D_loss (training_history self') = [] @ map (\<lambda>lg. d_loss lg ! 0) lgs \<and>
      length (history_records (training_history self')) = 2)"
  using training_history_appended [of example_engine "[[0]]" "[3]" 2 2 1
      "fst (DCGAN_init example_engine ())" "()" _ "()" _ "()"] example_contract
  by (simp add: example_train2 [unfolded example_init] example_init history_records_def)

subsection \<open>The generator\<close>

text \<open>
  C5: for every latent batch and whatever the weights, every value of every image the
  generator returns lies in [-1, 1], one image per latent vector; the stack ends with
  the output convolution followed by the tanh activation alone, with no normalisation
  after the output layer.
\<close>

theorem generator_output_in_range:
  "(\<forall>img\<in>set (generator_predict op noise). \<forall>v\<in>set img. - 1 \<le> v \<and> v \<le> 1) \<and>
   length (generator_predict op noise) = length noise \<and>
   (\<exists>pre. build_generator = pre @ [Conv2D channels 3 1, Activation Tanh])"
proof (intro conjI ballI)
  show "\<exists>pre. build_generator = pre @ [Conv2D channels 3 1, Activation Tanh]"
    by (rule build_generator_ends)
  show "length (generator_predict op noise) = length noise"
    by (rule length_generator_predict)
next
  fix img v assume "img \<in> set (generator_predict op noise)" and v: "v \<in> set img"
  then obtain z where "img = run_layers op 0 build_generator z"
    by (auto simp: generator_predict_def)
  then obtain y where "img = map tanh y"
    using run_build_generator by metis
  with v obtain x where vx: "v = tanh x" by auto
  show "- 1 \<le> v" using tanh_real_gt_neg1 [of x] by (simp add: vx)
  show "v \<le> 1" using tanh_real_lt_1 [of x] by (simp add: vx)
qed

theorem generator_output_in_range_witness:
  "generator_predict (\<lambda>i l x. x) [[0]] = [[0]] \<and> [0] \<in> set (generator_predict (\<lambda>i l x. x) [[0]]) \<and>
   (0::real) \<in> set [0] \<and> - 1 \<le> (0::real) \<and> (0::real) \<le> 1"
  using generator_output_in_range [of "\<lambda>i l x. x" "[[0]]"]
  by (simp add: generator_predict_def build_generator_def)

subsection \<open>The discriminator steps of an epoch\<close>

lemma train_epochs_of_run:
  assumes "train eng X y epochs bs si st = Inr (st', lgs)" and "lg \<in> set lgs"
  obtains e self r self' r' where
    "train_epoch eng X y bs (half_batch_of bs) [cw1, cw2 (half_batch_of bs)] si e (self, r)
       = Inr ((self', r'), lg)"
proof -
  let ?hb = "half_batch_of bs"
  from assms(1) have lp: "train_loop eng X y bs ?hb [cw1, cw2 ?hb] si [0..<nat epochs] st
      = Inr (st', lgs)"
    by (simp add: train_Inr_iff)
  with train_loop_logs [OF lp] assms(2) obtain e s s' where
    "train_epoch eng X y bs ?hb [cw1, cw2 ?hb] si e s = Inr (s', lg)"
    by blast
  then show ?thesis using that by (cases s, cases s') auto
qed

lemma half_add_metrics:
  "length (half_add (metrics_list a) (metrics_list b)) = 5 \<and>
   (\<forall>i<5. half_add (metrics_list a) (metrics_list b) ! i
      = 0.5 * (metrics_list a ! i + metrics_list b ! i))"
  by (auto simp: half_add_def metrics_list_def nth_Cons split: nat.splits)

text \<open>
  The vector \<open>d_loss\<close> of an epoch has the five entries of the two vectors the
  discriminator steps returned and is their element-wise average.
\<close>

lemma d_loss_average:
  assumes "train eng X_train y_train epochs batch_size save_interval st = Inr (st', lgs)"
    and "numpy_contract eng" and "lg \<in> set lgs"
  shows "length (d_loss_real lg) = 5 \<and> length (d_loss_fake lg) = 5 \<and> length (d_loss lg) = 5 \<and>
       (\<forall>i<5. d_loss lg ! i = 0.5 * (d_loss_real lg ! i + d_loss_fake lg ! i))"
proof -
  from assms(1,3) obtain e self r self' r' where ep:
    "train_epoch eng X_train y_train batch_size (half_batch_of batch_size)
       [cw1, cw2 (half_batch_of batch_size)] save_interval e (self, r) = Inr ((self', r'), lg)"
    by (rule train_epochs_of_run)
  from train_epoch_Inr [OF ep assms(2)] obtain m_real m_fake where
    "d_loss_real lg = metrics_list m_real" "d_loss_fake lg = metrics_list m_fake"
    "d_loss lg = half_add (metrics_list m_real) (metrics_list m_fake)"
    by auto
  then show ?thesis
    using half_add_metrics [of m_real m_fake] by (simp add: metrics_list_def)
qed

lemma one_hot_11_3: "one_hot 11 3 = [0, 0, 0, 1, 0, 0, 0, 0, 0, 0, 0]"
  by code_simp

lemma one_hot_11_10: "one_hot 11 10 = [0, 0, 0, 0, 0, 0, 0, 0, 0, 0, 1]"
  by code_simp

lemma one_hot_sentinel: "one_hot (num_classes + 1) num_classes = [0, 0, 0, 0, 0, 0, 0, 0, 0, 0, 1]"
  using one_hot_11_10 by (simp add: num_classes_def)

lemma one_hot_label_3: "one_hot (num_classes + 1) 3 = [0, 0, 0, 1, 0, 0, 0, 0, 0, 0, 0]"
  using one_hot_11_3 by (simp add: num_classes_def)



subsection \<open>Predictions\<close>

lemma argmax_from_correct:
  assumes "i = length pre" "best < i" "bv = (pre @ xs) ! best"
    "\<forall>j<i. (pre @ xs) ! j \<le> bv" "\<forall>j<best. (pre @ xs) ! j < bv"
  shows "argmax_from best bv i xs < length (pre @ xs) \<and>
         (\<forall>j<length (pre @ xs). (pre @ xs) ! j \<le> (pre @ xs) ! argmax_from best bv i xs) \<and>
         (\<forall>j<argmax_from best bv i xs. (pre @ xs) ! j < (pre @ xs) ! argmax_from best bv i xs)"
  using assms
proof (induction xs arbitrary: pre i best bv)
  case Nil
  then show ?case by auto
next
  case (Cons x xs)
  have xi: "(pre @ x # xs) ! i = x" using Cons.prems(1) by simp
  let ?ys = "(pre @ [x]) @ xs"
  have ys: "pre @ x # xs = ?ys" by simp
  show ?case
  proof (cases "bv < x")
    case True
    have "argmax_from i x (Suc i) xs < length ?ys \<and>
         (\<forall>j<length ?ys. ?ys ! j \<le> ?ys ! argmax_from i x (Suc i) xs) \<and>
         (\<forall>j<argmax_from i x (Suc i) xs. ?ys ! j < ?ys ! argmax_from i x (Suc i) xs)"
    proof (rule Cons.IH)
      show "Suc i = length (pre @ [x])" using Cons.prems(1) by simp
      show "i < Suc i" by simp
      show "x = ?ys ! i" using xi by simp
      show "\<forall>j<Suc i. ?ys ! j \<le> x"
        using Cons.prems(4) True xi by (auto simp: less_Suc_eq)
      show "\<forall>j<i. ?ys ! j < x"
        using Cons.prems(4) True by (auto simp: less_Suc_eq)
    qed
    with True show ?thesis by simp
  next
    case False
    have "argmax_from best bv (Suc i) xs < length ?ys \<and>
         (\<forall>j<length ?ys. ?ys ! j \<le> ?ys ! argmax_from best bv (Suc i) xs) \<and>
         (\<forall>j<argmax_from best bv (Suc i) xs. ?ys ! j < ?ys ! argmax_from best bv (Suc i) xs)"
    proof (rule Cons.IH)
      show "Suc i = length (pre @ [x])" using Cons.prems(1) by simp
      show "best < Suc i" using Cons.prems(2) by simp
      show "bv = ?ys ! best" using Cons.prems(3) by simp
      show "\<forall>j<Suc i. ?ys ! j \<le> bv"
        using Cons.prems(4) False xi by (auto simp: less_Suc_eq)
      show "\<forall>j<best. ?ys ! j < bv"
        using Cons.prems(5) by simp
    qed
    with False show ?thesis by simp
  qed
qed

lemma np_argmax_correct:
  assumes "xs \<noteq> []"
  shows "\<exists>k. np_argmax xs = Inr k \<and> k < length xs \<and> (\<forall>j<length xs. xs ! j \<le> xs ! k) \<and>
           (\<forall>j<k. xs ! j < xs ! k)"
proof -
  obtain x ys where xs: "xs = x # ys" using assms by (cases xs) auto
  have "argmax_from 0 x 1 ys < length ([x] @ ys) \<and>
         (\<forall>j<length ([x] @ ys). ([x] @ ys) ! j \<le> ([x] @ ys) ! argmax_from 0 x 1 ys) \<and>
         (\<forall>j<argmax_from 0 x 1 ys. ([x] @ ys) ! j < ([x] @ ys) ! argmax_from 0 x 1 ys)"
    by (rule argmax_from_correct) auto
  then show ?thesis by (simp add: xs np_argmax_def)
qed

lemma map_err_Inr:
  assumes "\<forall>x\<in>set xs. \<exists>y. f x = Inr y"
  shows "\<exists>ys. map_err f xs = Inr ys \<and> length ys = length xs \<and>
           (\<forall>i<length xs. f (xs ! i) = Inr (ys ! i))"
  using assms
proof (induction xs)
  case Nil
  then show ?case by simp
next
  case (Cons x xs)
  then obtain y where y: "f x = Inr y" by auto
  from Cons obtain ys where ys: "map_err f xs = Inr ys" "length ys = length xs"
    "\<forall>i<length xs. f (xs ! i) = Inr (ys ! i)" by auto
  show ?case using y ys by (auto simp: nth_Cons split: nat.splits)
qed

text \<open>
  C9: whenever the class output of the discriminator \<open>predict\<close> reads (that of the
  module's \<open>dcgan\<close>) has its 11 columns, the predictions \<open>predict\<close> forms, one per
  sample, are computed from the first ten columns alone: each is the index of the
  first greatest of them. It is therefore below 10 and never the sentinel class,
  whatever the value in the sentinel's column. These predictions are what the reports
  receive; with \<open>dcgan\<close> unbound the method raises NameError.
\<close>

theorem predict_drops_sentinel:
  assumes "\<forall>row\<in>set (snd (discriminator_predict eng (weights dcgan) X_test)).
             length row = num_classes + 1"
  shows "predict eng None self X_test y_test = Inl NameError \<and>
    (\<exists>y_pred.
       format_predictions (snd (discriminator_predict eng (weights dcgan) X_test)) = Inr y_pred \<and>
       predict eng (Some dcgan) self X_test y_test =
         (case prediction_report eng y_test y_pred of Some e \<Rightarrow> Inl e | None \<Rightarrow> Inr y_pred) \<and>
       length y_pred = length (snd (discriminator_predict eng (weights dcgan) X_test)) \<and>
       (\<forall>i<length y_pred.
          np_argmax (take num_classes (snd (discriminator_predict eng (weights dcgan) X_test) ! i))
            = Inr (y_pred ! i) \<and>
          y_pred ! i < num_classes \<and>
          (\<forall>j<num_classes.
             snd (discriminator_predict eng (weights dcgan) X_test) ! i ! j
               \<le> snd (discriminator_predict eng (weights dcgan) X_test) ! i ! (y_pred ! i)) \<and>
          (\<forall>j<y_pred ! i.
             snd (discriminator_predict eng (weights dcgan) X_test) ! i ! j
               < snd (discriminator_predict eng (weights dcgan) X_test) ! i ! (y_pred ! i))))"
proof -
  let ?out = "snd (discriminator_predict eng (weights dcgan) X_test)"
  let ?f = "\<lambda>row. np_argmax (butlast row)"
  have bl: "butlast row = take num_classes row \<and> length (take num_classes row) = num_classes"
    if "row \<in> set ?out" for row
    using assms that by (simp add: butlast_conv_take)
  have nc: "0 < num_classes" by (simp add: num_classes_def)
  have ok: "\<forall>row\<in>set ?out. \<exists>k. ?f row = Inr k"
  proof
    fix row assume r: "row \<in> set ?out"
    with bl [OF r] nc have "butlast row \<noteq> []" by auto
    from np_argmax_correct [OF this] show "\<exists>k. ?f row = Inr k" by blast
  qed
  from map_err_Inr [OF ok] obtain ys where ys: "map_err ?f ?out = Inr ys"
    "length ys = length ?out" "\<forall>i<length ?out. ?f (?out ! i) = Inr (ys ! i)"
    by blast
  have f: "format_predictions ?out = Inr ys"
    using ys(1) by (simp add: format_predictions_def)
  have p: "predict eng (Some dcgan) self X_test y_test =
      (case prediction_report eng y_test ys of Some e \<Rightarrow> Inl e | None \<Rightarrow> Inr ys)"
    using f by (simp add: predict_def)
  have n: "predict eng None self X_test y_test = Inl NameError"
    by (simp add: predict_def)
  have each: "np_argmax (take num_classes (?out ! i)) = Inr (ys ! i) \<and> ys ! i < num_classes \<and>
       (\<forall>j<num_classes. ?out ! i ! j \<le> ?out ! i ! (ys ! i)) \<and>
       (\<forall>j<ys ! i. ?out ! i ! j < ?out ! i ! (ys ! i))"
    if i: "i < length ys" for i
  proof -
    let ?row = "?out ! i"
    have mem: "?row \<in> set ?out" using i ys(2) by simp
    note b = bl [OF mem]
    have "np_argmax (butlast ?row) = Inr (ys ! i)"
      using ys(3) i ys(2) by auto
    then have a: "np_argmax (take num_classes ?row) = Inr (ys ! i)"
      using b by metis
    from b nc have "take num_classes ?row \<noteq> []" by auto
    from np_argmax_correct [OF this] a b
    have k: "ys ! i < num_classes"
      "\<forall>j<num_classes. take num_classes ?row ! j \<le> take num_classes ?row ! (ys ! i)"
      "\<forall>j<ys ! i. take num_classes ?row ! j < take num_classes ?row ! (ys ! i)"
      by auto
    from k show ?thesis using a by auto
  qed
  show ?thesis using n f p ys(2) each by blast
qed

theorem predict_drops_sentinel_witness:
  "snd (discriminator_predict example_engine () [[0]]) = [[0.1, 0.2, 0, 0, 0, 0, 0, 0, 0, 0, 0.7]] \<and>
   length [0.1, 0.2, 0, 0, 0, 0, 0, 0, 0, 0, 0.7 :: real] = num_classes + 1 \<and>
   predict example_engine
     (Some \<lparr>weights = (), training_history = \<lparr>D_loss = [], D_acc = [], G_loss = [], G_acc = []\<rparr>\<rparr>)
     \<lparr>weights = (), training_history = \<lparr>D_loss = [1], D_acc = [], G_loss = [], G_acc = []\<rparr>\<rparr>
     [[0]] [3]
     = Inr [1] \<and>
   predict example_engine None
     \<lparr>weights = (), training_history = \<lparr>D_loss = [1], D_acc = [], G_loss = [], G_acc = []\<rparr>\<rparr>
     [[0]] [3]
     = Inl NameError"
  using predict_drops_sentinel [of example_engine
      "\<lparr>weights = (), training_history = \<lparr>D_loss = [], D_acc = [], G_loss = [], G_acc = []\<rparr>\<rparr>" "[[0]]"
      "\<lparr>weights = (), training_history = \<lparr>D_loss = [1], D_acc = [], G_loss = [], G_acc = []\<rparr>\<rparr>" "[3]"]
  by (simp add: example_engine_def predict_def format_predictions_def np_argmax_def num_classes_def)

subsection \<open>Evaluation and the cross-validation driver\<close>

lemma train_ok:
  assumes "even batch_size" "0 < batch_size" "batch_size \<le> 2 ^ 54"
    "X \<noteq> []" "si \<noteq> 0" "length X \<le> length y" "\<forall>l\<in>set y. l \<le> num_classes"
    and "numpy_contract eng" and "\<forall>epoch imgs. fig_savefig eng epoch imgs = None"
  shows "\<exists>st' lgs. train eng X y epochs batch_size si st = Inr (st', lgs)"
proof -
  let ?hb = "batch_size div 2"
  have t: "train eng X y epochs batch_size si st =
     train_loop eng X y batch_size ?hb [cw1, cw2 ?hb] si [0..<nat epochs] st"
    using assms(1-3) by (intro train_even) simp_all
  have "0 \<le> ?hb" using assms(2) by simp
  from train_loop_ok [OF this assms(4-9)] obtain res where
    "train_loop eng X y batch_size ?hb [cw1, cw2 ?hb] si [0..<nat epochs] st = Inr res"
    by blast
  then show ?thesis using t by (cases res) simp
qed

lemma evaluate_discriminator_ok:
  assumes "\<forall>l\<in>set y_test. l \<le> num_classes"
  shows "evaluate_discriminator eng self X_test y_test =
     Inr (total_loss (discriminator_evaluate eng discriminator_compile X_test
            (replicate (length y_test) [1]) (map (one_hot (num_classes + 1)) y_test) (weights self)),
          validity_acc (discriminator_evaluate eng discriminator_compile X_test
            (replicate (length y_test) [1]) (map (one_hot (num_classes + 1)) y_test) (weights self))
            * 100)"
proof -
  have "to_categorical y_test (Suc num_classes) = Inr (map (one_hot (Suc num_classes)) y_test)"
    using assms by (intro to_categorical_ok) (auto simp: less_Suc_eq_le)
  then show ?thesis
    by (simp add: evaluate_discriminator_def Let_def np_ones_def metrics_list_def)
qed

lemma evaluate_discriminator_Inr:
  assumes "evaluate_discriminator eng self X_test y_test = Inr (l, acc)"
  shows "(\<forall>l\<in>set y_test. l \<le> num_classes) \<and>
     acc = validity_acc (discriminator_evaluate eng discriminator_compile X_test
            (replicate (length y_test) [1]) (map (one_hot (num_classes + 1)) y_test) (weights self))
            * 100"
proof -
  from assms have "\<forall>l\<in>set y_test. l \<le> num_classes"
    by (auto simp: evaluate_discriminator_def Let_def to_categorical_Inr less_Suc_eq_le
        split: sum.splits)
  with assms evaluate_discriminator_ok [OF this, of eng self X_test] show ?thesis by simp
qed

lemma run_fold_Inr:
  assumes "run_fold eng X y fd r = Inr (dcgan, acc, r')"
  shows "\<exists>X_train_cv y_train_cv X_valid_cv y_valid_cv lgs l.
     take_rows X (fst fd) = Inr X_train_cv \<and> take_rows y (fst fd) = Inr y_train_cv \<and>
     take_rows X (snd fd) = Inr X_valid_cv \<and> take_rows y (snd fd) = Inr y_valid_cv \<and>
     train eng X_train_cv y_train_cv 100 32 10 (DCGAN_init eng r) = Inr ((dcgan, r'), lgs) \<and>
     evaluate_discriminator eng dcgan X_valid_cv y_valid_cv = Inr (l, acc)"
  using assms by (auto simp: run_fold_def split: prod.splits sum.splits)


text \<open>
  C10: for labels in [0, 9], \<open>evaluate_discriminator\<close> evaluates the discriminator with
  validity target 1 for every held-out sample and with the one-hot rows of the labels,
  and returns the total loss and 100 times the accuracy of the validity head
  (\<open>scores[3]\<close>), in which the class-head accuracy has no part; and the score a fold
  appends to \<open>kfold_scores\<close> is that number, computed on the fold's validation rows
  with the network trained in that fold.
\<close>

theorem evaluation_scores_validity_head:
  assumes "\<forall>l\<in>set y_test. l \<le> 9"
  shows "evaluate_discriminator eng self X_test y_test =
     Inr (total_loss (discriminator_evaluate eng discriminator_compile X_test
            (replicate (length y_test) [1]) (map (one_hot (num_classes + 1)) y_test) (weights self)),
          validity_acc (discriminator_evaluate eng discriminator_compile X_test
            (replicate (length y_test) [1]) (map (one_hot (num_classes + 1)) y_test) (weights self))
            * 100) \<and>
   (\<forall>fd r dcgan acc r' folds kfold_scores lst.
      run_fold eng X_train y_train fd r = Inr (dcgan, acc, r') \<longrightarrow>
        (\<exists>X_valid_cv y_valid_cv.
           take_rows X_train (snd fd) = Inr X_valid_cv \<and>
           take_rows y_train (snd fd) = Inr y_valid_cv \<and>
           acc = validity_acc (discriminator_evaluate eng discriminator_compile X_valid_cv
                   (replicate (length y_valid_cv) [1])
                   (map (one_hot (num_classes + 1)) y_valid_cv) (weights dcgan)) * 100) \<and>
        run_folds eng X_train y_train (fd # folds) (kfold_scores, lst, r) =
          run_folds eng X_train y_train folds (kfold_scores @ [acc], Some dcgan, r'))"
proof (intro conjI allI impI)
  have "\<forall>l\<in>set y_test. l \<le> num_classes"
    using assms by (auto simp: num_classes_def)
  then show "evaluate_discriminator eng self X_test y_test =
     Inr (total_loss (discriminator_evaluate eng discriminator_compile X_test
            (replicate (length y_test) [1]) (map (one_hot (num_classes + 1)) y_test) (weights self)),
          validity_acc (discriminator_evaluate eng discriminator_compile X_test
            (replicate (length y_test) [1]) (map (one_hot (num_classes + 1)) y_test) (weights self))
            * 100)"
    by (rule evaluate_discriminator_ok)
next
  fix fd r dcgan acc r' folds kfold_scores lst
  assume rf: "run_fold eng X_train y_train fd r = Inr (dcgan, acc, r')"
  from run_fold_Inr [OF rf] obtain X_valid_cv y_valid_cv l where
    v: "take_rows X_train (snd fd) = Inr X_valid_cv" "take_rows y_train (snd fd) = Inr y_valid_cv"
      "evaluate_discriminator eng dcgan X_valid_cv y_valid_cv = Inr (l, acc)"
    by blast
  from evaluate_discriminator_Inr [OF v(3)] v(1,2)
  show "\<exists>X_valid_cv y_valid_cv.
           take_rows X_train (snd fd) = Inr X_valid_cv \<and>
           take_rows y_train (snd fd) = Inr y_valid_cv \<and>
           acc = validity_acc (discriminator_evaluate eng discriminator_compile X_valid_cv
                   (replicate (length y_valid_cv) [1])
                   (map (one_hot (num_classes + 1)) y_valid_cv) (weights dcgan)) * 100"
    by blast
  show "run_folds eng X_train y_train (fd # folds) (kfold_scores, lst, r) =
          run_folds eng X_train y_train folds (kfold_scores @ [acc], Some dcgan, r')"
    using rf by simp
qed



lemma example_evaluate:
  "evaluate_discriminator example_engine self [[0]] [3] = Inr (2, 50)"
proof -
  have "\<forall>l\<in>set [3::nat]. l \<le> num_classes" by (simp add: num_classes_def)
  from evaluate_discriminator_ok [OF this, of example_engine self "[[0]]"]
  show ?thesis by (simp add: example_engine_def example_metrics_def)
qed

lemma example_run_fold:
  "\<exists>dcgan. run_fold example_engine [[0], [0]] [3, 3] ([0], [1]) () = Inr (dcgan, 50, ())"
proof -
  have "\<exists>st' lgs. train example_engine [[0]] [3] 100 32 10 (DCGAN_init example_engine ())
      = Inr (st', lgs)"
  proof (rule train_ok)
    show "numpy_contract example_engine" by (rule example_contract)
    show "\<forall>epoch imgs. fig_savefig example_engine epoch imgs = None"
      by (simp add: example_engine_def)
  qed (simp_all add: num_classes_def)
  then obtain d u lgs where t: "train example_engine [[0]] [3] 100 32 10 (DCGAN_init example_engine ())
      = Inr ((d, u), lgs)"
    by auto
  have tr: "take_rows [[0], [0::real]] [0] = Inr [[0]]" "take_rows [3, 3::nat] [0] = Inr [3]"
    "take_rows [[0], [0::real]] [Suc 0] = Inr [[0]]" "take_rows [3, 3::nat] [Suc 0] = Inr [3]"
    by (simp_all add: take_rows_def)
  have "run_fold example_engine [[0], [0]] [3, 3] ([0], [1]) () = Inr (d, 50, ())"
    unfolding run_fold_def by (simp add: tr t example_evaluate)
  then show ?thesis by blast
qed


theorem evaluation_scores_validity_head_witness:
  "evaluate_discriminator example_engine
      \<lparr>weights = (), training_history = \<lparr>D_loss = [], D_acc = [], G_loss = [], G_acc = []\<rparr>\<rparr> [[0]] [3]
     = Inr (2, 50) \<and>
   validity_acc example_metrics * 100 = 50 \<and> class_acc example_metrics * 100 = 25 \<and>
   (\<exists>dcgan. run_fold example_engine [[0], [0]] [3, 3] ([0], [1]) () = Inr (dcgan, 50, ()) \<and>
      run_folds example_engine [[0], [0]] [3, 3] [([0], [1])] ([], None, ())
        = Inr ([50], Some dcgan, ()))"
proof -
  let ?self = "\<lparr>weights = (), training_history = \<lparr>D_loss = [], D_acc = [], G_loss = [], G_acc = []\<rparr>\<rparr>"
  have y: "\<forall>l\<in>set [3::nat]. l \<le> 9" by simp
  note inst = evaluation_scores_validity_head [OF y, of example_engine ?self "[[0]]" "[[0], [0]]" "[3, 3]"]
  have a: "evaluate_discriminator example_engine ?self [[0]] [3] = Inr (2, 50)"
    using inst [THEN conjunct1] by (simp add: example_engine_def example_metrics_def)
  obtain dcgan where rf: "run_fold example_engine [[0], [0]] [3, 3] ([0], [1]) () = Inr (dcgan, 50, ())"
    using example_run_fold by blast
  have b: "run_folds example_engine [[0], [0]] [3, 3] [([0], [1])] ([], None, ())
      = run_folds example_engine [[0], [0]] [3, 3] [] ([] @ [50], Some dcgan, ())"
    using inst [THEN conjunct2] rf by blast
  have c: "validity_acc example_metrics * 100 = 50 \<and> class_acc example_metrics * 100 = 25"
    by (simp add: example_metrics_def)
  show ?thesis using a b c rf by simp
qed

text \<open>
  The loop over the folds appends one score per fold and keeps the scores it had, and
  every fold trains a newly built \<open>DCGAN\<close>: its parameters are the ones drawn when the
  networks are built and its history is empty.
\<close>

lemma run_folds_scores:
  "run_folds eng X y folds (kfold_scores, lst, r) = Inr (kfold_scores', lst', r') \<Longrightarrow>
     length kfold_scores' = length kfold_scores + length folds \<and>
     take (length kfold_scores) kfold_scores' = kfold_scores"
proof (induction folds arbitrary: kfold_scores lst r)
  case Nil
  then show ?case by simp
next
  case (Cons fd folds)
  from Cons.prems obtain dcgan acc r1 where
    rf: "run_fold eng X y fd r = Inr (dcgan, acc, r1)" and
    rest: "run_folds eng X y folds (kfold_scores @ [acc], Some dcgan, r1)
       = Inr (kfold_scores', lst', r')"
    by (auto split: sum.splits)
  from Cons.IH [OF rest] have
    l: "length kfold_scores' = length (kfold_scores @ [acc]) + length folds" and
    t: "take (length (kfold_scores @ [acc])) kfold_scores' = kfold_scores @ [acc]"
    by auto
  have "kfold_scores' = (kfold_scores @ [acc]) @ drop (length (kfold_scores @ [acc])) kfold_scores'"
    using t append_take_drop_id [of "length (kfold_scores @ [acc])" kfold_scores'] by simp
  then obtain more where "kfold_scores' = kfold_scores @ acc # more"
    by simp
  then have "take (length kfold_scores) kfold_scores' = kfold_scores"
    by simp
  then show ?case using l by simp
qed

lemma run_fold_fresh:
  assumes "run_fold eng X y fd r = Inr (dcgan, acc, r')"
  shows "\<exists>X_train_cv y_train_cv lgs.
     train eng X_train_cv y_train_cv 100 32 10 (DCGAN_init eng r) = Inr ((dcgan, r'), lgs) \<and>
     training_history (fst (DCGAN_init eng r)) = \<lparr>D_loss = [], D_acc = [], G_loss = [], G_acc = []\<rparr> \<and>
     weights (fst (DCGAN_init eng r)) = fst (keras_init eng r)"
  using run_fold_Inr [OF assms] by (auto simp: DCGAN_init_def split_beta)

end
